theory Spec2Isabelle
  imports Main
begin

section \<open>The install command of dnf: dnf/cli/commands/install.py\<close>

text \<open>
  \<^verbatim>\<open>InstallCommand.run\<close> turns the parsed command line (\<^verbatim>\<open>self.opts\<close>) into a
  sequence of calls on the resolution engine (\<^verbatim>\<open>self.base\<close>, \<^verbatim>\<open>self.cli\<close>) and raises
  at most one exception. The engine is not part of the file: it is a parameter of the
  model, a record of operations over an engine state of any type \<open>'s\<close>, each of which
  returns a value or raises. What the command does with the engine is observed through
  the chronological list of the calls it made and of the lines it logged.
\<close>

subsection \<open>Data\<close>

text \<open>\<^verbatim>\<open>hawkey.FORM_NAME\<close>, \<^verbatim>\<open>hawkey.FORM_NA\<close>, \<^verbatim>\<open>hawkey.FORM_NEVRA\<close>.\<close>

datatype form = FORM_NAME | FORM_NA | FORM_NEVRA

text \<open>
  The fields of \<^verbatim>\<open>self.opts\<close> that the command reads. \<^verbatim>\<open>command\<close> is a list of strings
  (the code compares it with \<^verbatim>\<open>['localinstall']\<close>); the three target lists are
  filled by \<^verbatim>\<open>OptionParser.ParseSpecGroupFileCallback\<close>.
\<close>

record opts =
  command :: "string list"
  pkg_specs :: "string list"
  grp_specs :: "string list"
  filenames :: "string list"
  assumeyes :: bool

text \<open>The fields of \<^verbatim>\<open>self.base.conf\<close> that the command reads.\<close>

record conf =
  strict :: bool
  group_package_types :: "string list"

text \<open>
  A package object as returned by \<^verbatim>\<open>add_remote_rpms\<close>; the command reads only its
  \<^verbatim>\<open>location\<close>.
\<close>

datatype package = Package (pkg_id: nat) (location: string)

text \<open>
  An exception raised by an engine call, by the class the \<^verbatim>\<open>except\<close> clauses of the
  file test for: \<open>MarkingError\<close> is \<^verbatim>\<open>dnf.exceptions.MarkingError\<close> or a subclass (the
  engine's "not found"), \<open>DnfError\<close> any other \<^verbatim>\<open>dnf.exceptions.Error\<close>, and
  \<open>ForeignError\<close> an exception outside that hierarchy. \<^verbatim>\<open>MarkingError\<close> derives from
  \<^verbatim>\<open>Error\<close> (dnf/exceptions.py), so \<^verbatim>\<open>except dnf.exceptions.Error\<close> catches both.
\<close>

datatype exn = MarkingError string | DnfError string | ForeignError string

fun is_MarkingError :: "exn \<Rightarrow> bool" where
  "is_MarkingError (MarkingError m) = True"
| "is_MarkingError (DnfError m) = False"
| "is_MarkingError (ForeignError m) = False"

fun is_Error :: "exn \<Rightarrow> bool" where
  "is_Error (MarkingError m) = True"
| "is_Error (DnfError m) = True"
| "is_Error (ForeignError m) = False"

text \<open>
  What \<^verbatim>\<open>run\<close> ends with when it does not return: \<open>Error msg\<close> is
  \<^verbatim>\<open>raise dnf.exceptions.Error(msg)\<close>, \<open>PackagesNotAvailableError msg pkg_spec packages\<close>
  is the exception of the last statement of \<^verbatim>\<open>run\<close> with its two keyword arguments,
  and \<open>Raised e\<close> is an exception of an engine call that no handler of the file caught.
\<close>

datatype failure =
    Error string
  | PackagesNotAvailableError string string "package list"
  | Raised exn

text \<open>
  The engine. Every operation takes the engine state and returns the new one, together
  with its value or the exception it raised. \<open>populate_update_security_filter\<close> stands
  for \<^verbatim>\<open>self.cli._populate_update_security_filter(self.opts, self.base.sack.query())\<close>:
  the query is taken from the engine state. The \<^verbatim>\<open>progress\<close> argument of
  \<^verbatim>\<open>add_remote_rpms\<close> is a display object and is left out; the iterable it returns is
  taken as a list.
\<close>

record 's engine =
  populate_update_security_filter :: "opts \<Rightarrow> 's \<Rightarrow> (exn + unit) \<times> 's"
  install_module :: "string list \<Rightarrow> bool \<Rightarrow> 's \<Rightarrow> (exn + string list) \<times> 's"
  add_remote_rpms :: "string list \<Rightarrow> bool \<Rightarrow> 's \<Rightarrow> (exn + package list) \<times> 's"
  package_install :: "package \<Rightarrow> bool \<Rightarrow> 's \<Rightarrow> (exn + unit) \<times> 's"
  read_comps :: "bool \<Rightarrow> 's \<Rightarrow> (exn + unit) \<times> 's"
  env_group_install :: "string list \<Rightarrow> string list \<Rightarrow> bool \<Rightarrow> 's \<Rightarrow> (exn + unit) \<times> 's"
  install :: "string \<Rightarrow> bool \<Rightarrow> form list \<Rightarrow> 's \<Rightarrow> (exn + unit) \<times> 's"
  report_icase_hint :: "string \<Rightarrow> 's \<Rightarrow> (exn + unit) \<times> 's"

text \<open>The calls with their arguments, and how each call ended.\<close>

datatype call =
    PopulateUpdateSecurityFilter
  | InstallModule "string list" bool
  | AddRemoteRpms "string list" bool
  | PackageInstall package bool
  | ReadComps bool
  | EnvGroupInstall "string list" "string list" bool
  | Install string bool "form list"
  | ReportIcaseHint string

datatype outcome =
    Returns
  | ReturnsSpecs "string list"
  | ReturnsPackages "package list"
  | Raises exn

text \<open>
  \<open>LogInfo fmt arg\<close> is \<^verbatim>\<open>logger.info(fmt, bold(arg))\<close> and \<open>LogWarning\<close> the same for
  \<^verbatim>\<open>logger.warning\<close>; the terminal's \<^verbatim>\<open>bold\<close> only decorates the argument.
\<close>

datatype event =
    Called call outcome
  | LogInfo string string
  | LogWarning string string

subsection \<open>Sequencing\<close>

text \<open>
  A statement of the command maps the engine state to its value or the failure that
  ends the run, the new engine state, and the events it produced.
\<close>

type_synonym ('s, 'a) prog = "'s \<Rightarrow> (failure + 'a) \<times> 's \<times> event list"

definition m_return :: "'a \<Rightarrow> ('s, 'a) prog" where
  "m_return x s = (Inr x, s, [])"

definition m_raise :: "failure \<Rightarrow> ('s, 'a) prog" where
  "m_raise e s = (Inl e, s, [])"

definition m_bind :: "('s, 'a) prog \<Rightarrow> ('a \<Rightarrow> ('s, 'b) prog) \<Rightarrow> ('s, 'b) prog" where
  "m_bind m f s =
     (case m s of
        (Inl e, s1, t1) \<Rightarrow> (Inl e, s1, t1)
      | (Inr x, s1, t1) \<Rightarrow> (case f x s1 of (r, s2, t2) \<Rightarrow> (r, s2, t1 @ t2)))"

definition emit :: "event \<Rightarrow> ('s, unit) prog" where
  "emit ev s = (Inr (), s, [ev])"

text \<open>
  An engine call inside a \<^verbatim>\<open>try\<close>: the exception, if any, is handed to the handler as
  a value.
\<close>

definition attempt ::
  "call \<Rightarrow> ('a \<Rightarrow> outcome) \<Rightarrow> ('s \<Rightarrow> (exn + 'a) \<times> 's) \<Rightarrow> ('s, exn + 'a) prog" where
  "attempt c shown f s =
     (case f s of
        (Inl e, s1) \<Rightarrow> (Inr (Inl e), s1, [Called c (Raises e)])
      | (Inr x, s1) \<Rightarrow> (Inr (Inr x), s1, [Called c (shown x)]))"

text \<open>An engine call outside any \<^verbatim>\<open>try\<close>: its exception ends the run.\<close>

definition invoke ::
  "call \<Rightarrow> ('a \<Rightarrow> outcome) \<Rightarrow> ('s \<Rightarrow> (exn + 'a) \<times> 's) \<Rightarrow> ('s, 'a) prog" where
  "invoke c shown f =
     m_bind (attempt c shown f)
       (\<lambda>r. case r of Inl e \<Rightarrow> m_raise (Raised e) | Inr x \<Rightarrow> m_return x)"

subsection \<open>The command\<close>

text \<open>The class attribute \<^verbatim>\<open>nevra_forms\<close>, a dictionary.\<close>

definition nevra_forms :: "string \<rightharpoonup> form" where
  "nevra_forms =
     map_of [(''install-n'', FORM_NAME), (''install-na'', FORM_NA),
             (''install-nevra'', FORM_NEVRA)]"

text \<open>\<^verbatim>\<open>_get_nevra_forms_from_command\<close>: the forms of those command words that are keys.\<close>

definition get_nevra_forms_from_command :: "opts \<Rightarrow> form list" where
  "get_nevra_forms_from_command opt =
     map (\<lambda>c. the (nevra_forms c)) (filter (\<lambda>c. c \<in> dom nevra_forms) (command opt))"

text \<open>\<^verbatim>\<open>' '.join(errs)\<close>.\<close>

fun join :: "string \<Rightarrow> string list \<Rightarrow> string" where
  "join sep [] = []"
| "join sep [x] = x"
| "join sep (x # y # ys) = x @ sep @ join sep (y # ys)"

fun log_each :: "(string \<Rightarrow> event) \<Rightarrow> string list \<Rightarrow> ('s, unit) prog" where
  "log_each mk [] = m_return ()"
| "log_each mk (x # xs) = m_bind (emit (mk x)) (\<lambda>_. log_each mk xs)"

text \<open>\<^verbatim>\<open>_log_not_valid_rpm_file_paths\<close>: the package specs, then the groups with \<^verbatim>\<open>@\<close>.\<close>

definition log_not_valid_rpm_file_paths :: "opts \<Rightarrow> string list \<Rightarrow> ('s, unit) prog" where
  "log_not_valid_rpm_file_paths opt grps =
     log_each (LogInfo ''Not a valid rpm file path: %s'')
       (pkg_specs opt @ map (\<lambda>g. ''@'' @ g) grps)"

text \<open>\<^verbatim>\<open>_inform_not_a_valid_combination\<close>.\<close>

definition inform_not_a_valid_combination :: "string list \<Rightarrow> ('s, unit) prog" where
  "inform_not_a_valid_combination forms = log_each (LogWarning ''Not a valid form: %s'') forms"

text \<open>
  The loop of \<^verbatim>\<open>_install_files\<close> over the packages that \<^verbatim>\<open>add_remote_rpms\<close> returned;
  \<open>err_pkgs\<close> is the list the loop appends to.
\<close>

fun install_files_loop ::
  "'s engine \<Rightarrow> conf \<Rightarrow> package list \<Rightarrow> package list \<Rightarrow> ('s, package list) prog" where
  "install_files_loop b cf [] err_pkgs = m_return err_pkgs"
| "install_files_loop b cf (pkg # pkgs) err_pkgs =
     m_bind (attempt (PackageInstall pkg (strict cf)) (\<lambda>_. Returns)
               (package_install b pkg (strict cf)))
       (\<lambda>r. case r of
               Inr _ \<Rightarrow> install_files_loop b cf pkgs err_pkgs
             | Inl e \<Rightarrow>
                 if is_MarkingError e
                 then m_bind (emit (LogInfo ''No match for argument: %s'' (location pkg)))
                        (\<lambda>_. install_files_loop b cf pkgs (err_pkgs @ [pkg]))
                 else m_raise (Raised e))"

definition install_files :: "'s engine \<Rightarrow> conf \<Rightarrow> opts \<Rightarrow> ('s, package list) prog" where
  "install_files b cf opt =
     m_bind (invoke (AddRemoteRpms (filenames opt) (strict cf)) ReturnsPackages
               (add_remote_rpms b (filenames opt) (strict cf)))
       (\<lambda>pkgs. install_files_loop b cf pkgs [])"

text \<open>
  \<^verbatim>\<open>_install_groups(self, grp_specs)\<close>. The body passes \<^verbatim>\<open>self.opts.grp_specs\<close> to
  \<^verbatim>\<open>env_group_install\<close>; the parameter \<^verbatim>\<open>grp_specs\<close> is not read.
\<close>

definition install_groups :: "'s engine \<Rightarrow> conf \<Rightarrow> opts \<Rightarrow> string list \<Rightarrow> ('s, unit) prog" where
  "install_groups b cf opt grps =
     m_bind (invoke (ReadComps True) (\<lambda>_. Returns) (read_comps b True))
       (\<lambda>_. m_bind (attempt (EnvGroupInstall (grp_specs opt) (group_package_types cf) (strict cf))
                      (\<lambda>_. Returns)
                      (env_group_install b (grp_specs opt) (group_package_types cf) (strict cf)))
               (\<lambda>r. case r of
                       Inr _ \<Rightarrow> m_return ()
                     | Inl e \<Rightarrow>
                         if is_Error e
                         then (if strict cf then m_raise (Raised e) else m_return ())
                         else m_raise (Raised e)))"

text \<open>The loop of \<^verbatim>\<open>_install_packages\<close>; \<open>errs\<close> is the list the loop appends to.\<close>

fun install_packages_loop ::
  "'s engine \<Rightarrow> conf \<Rightarrow> form list \<Rightarrow> string list \<Rightarrow> string list \<Rightarrow> ('s, string list) prog" where
  "install_packages_loop b cf forms [] errs = m_return errs"
| "install_packages_loop b cf forms (pkg_spec # rest) errs =
     m_bind (attempt (Install pkg_spec (strict cf) forms) (\<lambda>_. Returns)
               (install b pkg_spec (strict cf) forms))
       (\<lambda>r. case r of
               Inr _ \<Rightarrow> install_packages_loop b cf forms rest errs
             | Inl e \<Rightarrow>
                 if is_MarkingError e
                 then m_bind (emit (LogInfo ''No package %s available.'' pkg_spec))
                        (\<lambda>_. m_bind (invoke (ReportIcaseHint pkg_spec) (\<lambda>_. Returns)
                                       (report_icase_hint b pkg_spec))
                        (\<lambda>_. install_packages_loop b cf forms rest (errs @ [pkg_spec])))
                 else m_raise (Raised e))"

definition install_packages :: "'s engine \<Rightarrow> conf \<Rightarrow> opts \<Rightarrow> form list \<Rightarrow> ('s, string list) prog" where
  "install_packages b cf opt forms = install_packages_loop b cf forms (pkg_specs opt) []"

text \<open>
  \<^verbatim>\<open>run\<close>, statement by statement. A Python list is true when it is not empty.
  \<open>err_pkgs\<close> and \<open>errs\<close> start as \<open>[]\<close> and keep that value on the paths that skip
  their phase.
\<close>

definition run :: "'s engine \<Rightarrow> conf \<Rightarrow> opts \<Rightarrow> ('s, unit) prog" where
  "run b cf opt =
     (let forms = get_nevra_forms_from_command opt in
      m_bind (invoke PopulateUpdateSecurityFilter (\<lambda>_. Returns)
                (populate_update_security_filter b opt))
      (\<lambda>_. m_bind
         (if command opt = [''localinstall''] \<and> (grp_specs opt \<noteq> [] \<or> pkg_specs opt \<noteq> [])
          then m_bind (log_not_valid_rpm_file_paths opt (grp_specs opt))
                 (\<lambda>_. if strict cf then m_raise (Error ''Nothing to do.'') else m_return ())
          else m_return ())
      (\<lambda>_. m_bind
         (if grp_specs opt \<noteq> [] \<and> command opt \<noteq> [''localinstall'']
          then invoke (InstallModule (grp_specs opt) (assumeyes opt)) ReturnsSpecs
                 (install_module b (grp_specs opt) (assumeyes opt))
          else m_return (grp_specs opt))
      (\<lambda>skipped_grp_specs. m_bind
         (if filenames opt \<noteq> [] \<and> forms \<noteq> []
          then m_bind (inform_not_a_valid_combination (filenames opt))
                 (\<lambda>_. if strict cf then m_raise (Error ''Nothing to do.'') else m_return [])
          else install_files b cf opt)
      (\<lambda>err_pkgs. m_bind
         (if skipped_grp_specs \<noteq> [] \<and> forms \<noteq> []
          then m_bind (inform_not_a_valid_combination skipped_grp_specs)
                 (\<lambda>_. if strict cf then m_raise (Error ''Nothing to do.'') else m_return ())
          else if skipped_grp_specs \<noteq> [] \<and> command opt \<noteq> [''localinstall'']
          then install_groups b cf opt skipped_grp_specs
          else m_return ())
      (\<lambda>_. m_bind
         (if command opt \<noteq> [''localinstall'']
          then install_packages b cf opt forms
          else m_return [])
      (\<lambda>errs.
         if (length errs \<noteq> 0 \<or> length err_pkgs \<noteq> 0) \<and> strict cf
         then m_raise (PackagesNotAvailableError ''Unable to find a match''
                         (join '' '' errs) err_pkgs)
         else m_return ())))))))"

subsection \<open>The statements of \<^verbatim>\<open>run\<close>, one by one\<close>

text \<open>
  The seven statements of \<^verbatim>\<open>run\<close> after the form detection, each as a program of its
  own; \<open>run_steps\<close> below shows that \<open>run\<close> is their composition.
\<close>

abbreviation result :: "('r \<times> 's \<times> event list) \<Rightarrow> 'r" where
  "result x \<equiv> fst x"

abbreviation trace :: "('r \<times> 's \<times> event list) \<Rightarrow> event list" where
  "trace x \<equiv> snd (snd x)"

definition security_filter_step :: "'s engine \<Rightarrow> opts \<Rightarrow> ('s, unit) prog" where
  "security_filter_step b opt =
     invoke PopulateUpdateSecurityFilter (\<lambda>_. Returns) (populate_update_security_filter b opt)"

definition localinstall_check :: "conf \<Rightarrow> opts \<Rightarrow> ('s, unit) prog" where
  "localinstall_check cf opt =
     (if command opt = [''localinstall''] \<and> (grp_specs opt \<noteq> [] \<or> pkg_specs opt \<noteq> [])
      then m_bind (log_not_valid_rpm_file_paths opt (grp_specs opt))
             (\<lambda>_. if strict cf then m_raise (Error ''Nothing to do.'') else m_return ())
      else m_return ())"

definition module_step :: "'s engine \<Rightarrow> opts \<Rightarrow> ('s, string list) prog" where
  "module_step b opt =
     (if grp_specs opt \<noteq> [] \<and> command opt \<noteq> [''localinstall'']
      then invoke (InstallModule (grp_specs opt) (assumeyes opt)) ReturnsSpecs
             (install_module b (grp_specs opt) (assumeyes opt))
      else m_return (grp_specs opt))"

definition file_step :: "'s engine \<Rightarrow> conf \<Rightarrow> opts \<Rightarrow> form list \<Rightarrow> ('s, package list) prog" where
  "file_step b cf opt forms =
     (if filenames opt \<noteq> [] \<and> forms \<noteq> []
      then m_bind (inform_not_a_valid_combination (filenames opt))
             (\<lambda>_. if strict cf then m_raise (Error ''Nothing to do.'') else m_return [])
      else install_files b cf opt)"

definition group_step ::
  "'s engine \<Rightarrow> conf \<Rightarrow> opts \<Rightarrow> form list \<Rightarrow> string list \<Rightarrow> ('s, unit) prog" where
  "group_step b cf opt forms skipped_grp_specs =
     (if skipped_grp_specs \<noteq> [] \<and> forms \<noteq> []
      then m_bind (inform_not_a_valid_combination skipped_grp_specs)
             (\<lambda>_. if strict cf then m_raise (Error ''Nothing to do.'') else m_return ())
      else if skipped_grp_specs \<noteq> [] \<and> command opt \<noteq> [''localinstall'']
      then install_groups b cf opt skipped_grp_specs
      else m_return ())"

definition package_step :: "'s engine \<Rightarrow> conf \<Rightarrow> opts \<Rightarrow> form list \<Rightarrow> ('s, string list) prog" where
  "package_step b cf opt forms =
     (if command opt \<noteq> [''localinstall'']
      then install_packages b cf opt forms
      else m_return [])"

definition finalize :: "conf \<Rightarrow> package list \<Rightarrow> string list \<Rightarrow> ('s, unit) prog" where
  "finalize cf err_pkgs errs =
     (if (length errs \<noteq> 0 \<or> length err_pkgs \<noteq> 0) \<and> strict cf
      then m_raise (PackagesNotAvailableError ''Unable to find a match''
                      (join '' '' errs) err_pkgs)
      else m_return ())"

subsection \<open>Reading a run\<close>

text \<open>
  Every call belongs to one phase of the command: the security filter, module
  resolution, file installation (the intake \<^verbatim>\<open>add_remote_rpms\<close> and the per-file
  \<^verbatim>\<open>package_install\<close>), classic group installation (\<^verbatim>\<open>read_comps\<close> and
  \<^verbatim>\<open>env_group_install\<close>) and per-spec package installation (\<^verbatim>\<open>install\<close> and the hint
  lookup of its handler). Log lines are no calls.
\<close>

datatype phase = FilterPhase | ModulePhase | FilePhase | GroupPhase | PackagePhase | Logging

fun phase_of_call :: "call \<Rightarrow> phase" where
  "phase_of_call PopulateUpdateSecurityFilter = FilterPhase"
| "phase_of_call (InstallModule gs y) = ModulePhase"
| "phase_of_call (AddRemoteRpms fs st) = FilePhase"
| "phase_of_call (PackageInstall p st) = FilePhase"
| "phase_of_call (ReadComps a) = GroupPhase"
| "phase_of_call (EnvGroupInstall gs ts st) = GroupPhase"
| "phase_of_call (Install sp st fs) = PackagePhase"
| "phase_of_call (ReportIcaseHint sp) = PackagePhase"

fun phase_of :: "event \<Rightarrow> phase" where
  "phase_of (Called c r) = phase_of_call c"
| "phase_of (LogInfo f a) = Logging"
| "phase_of (LogWarning f a) = Logging"

text \<open>The calls that raised, with their exceptions, in order.\<close>

fun raised_call :: "event \<Rightarrow> (call \<times> exn) list" where
  "raised_call (Called c (Raises e)) = [(c, e)]"
| "raised_call (Called c Returns) = []"
| "raised_call (Called c (ReturnsSpecs xs)) = []"
| "raised_call (Called c (ReturnsPackages ps)) = []"
| "raised_call (LogInfo f a) = []"
| "raised_call (LogWarning f a) = []"

definition raised_calls :: "event list \<Rightarrow> (call \<times> exn) list" where
  "raised_calls t = concat (map raised_call t)"

text \<open>A call ended in the engine's "not found" when it raised a \<^verbatim>\<open>MarkingError\<close>.\<close>

fun not_found :: "outcome \<Rightarrow> bool" where
  "not_found (Raises e) = is_MarkingError e"
| "not_found Returns = False"
| "not_found (ReturnsSpecs xs) = False"
| "not_found (ReturnsPackages ps) = False"

text \<open>
  The per-spec \<^verbatim>\<open>install\<close> calls of a run with how each ended; the specs among them
  that were not found, and those whose call returned (the engine queued them).
\<close>

fun install_attempt :: "event \<Rightarrow> (string \<times> outcome) list" where
  "install_attempt (Called (Install sp st fs) r) = [(sp, r)]"
| "install_attempt _ = []"

definition install_attempts :: "event list \<Rightarrow> (string \<times> outcome) list" where
  "install_attempts t = concat (map install_attempt t)"

definition unmatched_specs :: "event list \<Rightarrow> string list" where
  "unmatched_specs t = map fst (filter (\<lambda>a. not_found (snd a)) (install_attempts t))"

definition queued_specs :: "event list \<Rightarrow> string list" where
  "queued_specs t = map fst (filter (\<lambda>a. snd a = Returns) (install_attempts t))"

text \<open>The same for the per-file \<^verbatim>\<open>package_install\<close> calls.\<close>

fun file_attempt :: "event \<Rightarrow> (package \<times> outcome) list" where
  "file_attempt (Called (PackageInstall p st) r) = [(p, r)]"
| "file_attempt _ = []"

definition file_attempts :: "event list \<Rightarrow> (package \<times> outcome) list" where
  "file_attempts t = concat (map file_attempt t)"

definition unmatched_packages :: "event list \<Rightarrow> package list" where
  "unmatched_packages t = map fst (filter (\<lambda>a. not_found (snd a)) (file_attempts t))"

text \<open>The calls of the intake \<^verbatim>\<open>add_remote_rpms\<close>, with their arguments.\<close>

fun intake_call :: "event \<Rightarrow> (string list \<times> bool) list" where
  "intake_call (Called (AddRemoteRpms fs st) r) = [(fs, st)]"
| "intake_call _ = []"

definition intake_calls :: "event list \<Rightarrow> (string list \<times> bool) list" where
  "intake_calls t = concat (map intake_call t)"

text \<open>
  An exception that the command treats as a target that was not found: a
  \<^verbatim>\<open>MarkingError\<close> of a per-file or per-spec install (caught, logged and recorded), and
  any \<^verbatim>\<open>dnf.exceptions.Error\<close> of the group installation (caught).
\<close>

fun not_found_signal :: "call \<Rightarrow> exn \<Rightarrow> bool" where
  "not_found_signal (PackageInstall p st) e = is_MarkingError e"
| "not_found_signal (Install sp st fs) e = is_MarkingError e"
| "not_found_signal (EnvGroupInstall gs ts st) e = is_Error e"
| "not_found_signal PopulateUpdateSecurityFilter e = False"
| "not_found_signal (InstallModule gs y) e = False"
| "not_found_signal (AddRemoteRpms fs st) e = False"
| "not_found_signal (ReadComps a) e = False"
| "not_found_signal (ReportIcaseHint sp) e = False"

text \<open>Two properties of a program that hold of a sequence when they hold of its parts.\<close>

definition events_in :: "(event \<Rightarrow> bool) \<Rightarrow> ('s, 'a) prog \<Rightarrow> bool" where
  "events_in P m \<longleftrightarrow> (\<forall>s. \<forall>ev \<in> set (snd (snd (m s))). P ev)"

fun blamed :: "(call \<Rightarrow> exn \<Rightarrow> bool) \<Rightarrow> bool \<Rightarrow> bool \<Rightarrow> failure \<Rightarrow> event list \<Rightarrow> bool" where
  "blamed G E P (Raised e) t = (\<exists>c. (c, e) \<in> set (raised_calls t) \<and> G c e)"
| "blamed G E P (Error msg) t = E"
| "blamed G E P (PackagesNotAvailableError msg ps pk) t = P"

definition fails_only ::
  "(call \<Rightarrow> exn \<Rightarrow> bool) \<Rightarrow> bool \<Rightarrow> bool \<Rightarrow> ('s, 'a) prog \<Rightarrow> bool" where
  "fails_only G E P m \<longleftrightarrow> (\<forall>s f s1 t. m s = (Inl f, s1, t) \<longrightarrow> blamed G E P f t)"

subsection \<open>Example engines and requests\<close>

text \<open>
  An engine without state: module resolution leaves \<open>skipped\<close>, the intake returns
  \<open>pkgs\<close>, and \<^verbatim>\<open>install\<close> finds exactly the specs in \<open>avail\<close>.
\<close>

definition quiet_engine :: "string list \<Rightarrow> package list \<Rightarrow> string list \<Rightarrow> unit engine" where
  "quiet_engine skipped pkgs avail =
     \<lparr> populate_update_security_filter = (\<lambda>_ s. (Inr (), s)),
       install_module = (\<lambda>_ _ s. (Inr skipped, s)),
       add_remote_rpms = (\<lambda>_ _ s. (Inr pkgs, s)),
       package_install = (\<lambda>_ _ s. (Inr (), s)),
       read_comps = (\<lambda>_ s. (Inr (), s)),
       env_group_install = (\<lambda>_ _ _ s. (Inr (), s)),
       install = (\<lambda>spec _ _ s. (if spec \<in> set avail then Inr () else Inl (MarkingError spec), s)),
       report_icase_hint = (\<lambda>_ s. (Inr (), s)) \<rparr>"

definition strict_conf :: conf where
  "strict_conf = \<lparr> strict = True, group_package_types = [''mandatory''] \<rparr>"

definition lenient_conf :: conf where
  "lenient_conf = \<lparr> strict = False, group_package_types = [''mandatory''] \<rparr>"

definition request :: "string \<Rightarrow> string list \<Rightarrow> string list \<Rightarrow> string list \<Rightarrow> opts" where
  "request cmd pkgs grps files =
     \<lparr> command = [cmd], pkg_specs = pkgs, grp_specs = grps, filenames = files,
       assumeyes = False \<rparr>"

text \<open>An engine whose group installation raises \<open>e\<close>.\<close>

definition broken_group_engine :: "exn \<Rightarrow> unit engine" where
  "broken_group_engine e =
     (quiet_engine [''g''] [] [''vim''])
       \<lparr> env_group_install := (\<lambda>_ _ _ s. (Inl e, s)) \<rparr>"

text \<open>An engine whose intake returns two packages and whose per-file install misses one.\<close>

definition picky_engine :: "unit engine" where
  "picky_engine =
     (quiet_engine [] [Package 0 ''a.rpm'', Package 1 ''b.rpm''] [''vim''])
       \<lparr> package_install :=
           (\<lambda>p _ s. (if location p = ''b.rpm'' then Inl (MarkingError ''b.rpm'') else Inr (), s)) \<rparr>"


section \<open>Lemmas\<close>

subsection \<open>Events of a sequence\<close>

lemma events_in_return: "events_in P (m_return x)"
  by (simp add: events_in_def m_return_def)

lemma events_in_raise: "events_in P (m_raise e)"
  by (simp add: events_in_def m_raise_def)

lemma events_in_bind:
  assumes "events_in P m" and "\<And>x. events_in P (f x)"
  shows "events_in P (m_bind m f)"
  unfolding events_in_def
proof (intro allI ballI)
  fix s ev
  assume ev: "ev \<in> set (snd (snd (m_bind m f s)))"
  obtain r s1 t1 where ms: "m s = (r, s1, t1)" by (cases "m s") auto
  have t1: "\<forall>ev \<in> set t1. P ev" using assms(1) ms by (auto simp: events_in_def dest: spec [where x = s])
  show "P ev"
  proof (cases r)
    case (Inl e)
    with ev ms t1 show ?thesis by (simp add: m_bind_def)
  next
    case (Inr x)
    obtain r2 s2 t2 where fs: "f x s1 = (r2, s2, t2)" by (cases "f x s1") auto
    have "\<forall>ev \<in> set t2. P ev" using assms(2) [of x] fs by (auto simp: events_in_def dest: spec [where x = s1])
    with ev ms t1 Inr fs show ?thesis by (auto simp: m_bind_def)
  qed
qed

lemma events_in_emit: "P ev \<Longrightarrow> events_in P (emit ev)"
  by (simp add: events_in_def emit_def)

lemma events_in_attempt: "(\<And>r. P (Called c r)) \<Longrightarrow> events_in P (attempt c shown f)"
  by (auto simp: events_in_def attempt_def split: prod.splits sum.splits)

lemma events_in_invoke: "(\<And>r. P (Called c r)) \<Longrightarrow> events_in P (invoke c shown f)"
  unfolding invoke_def
  by (intro events_in_bind events_in_attempt) (auto split: sum.splits intro: events_in_raise events_in_return)

lemma events_in_log_each: "(\<And>x. P (mk x)) \<Longrightarrow> events_in P (log_each mk xs)"
  by (induction xs) (auto intro!: events_in_return events_in_bind events_in_emit)

lemma events_in_install_files_loop:
  assumes "\<And>p st r. P (Called (PackageInstall p st) r)" and "\<And>f a. P (LogInfo f a)"
  shows "events_in P (install_files_loop b cf pkgs errs)"
proof (induction pkgs arbitrary: errs)
  case Nil
  show ?case by (simp add: events_in_return)
next
  case (Cons p ps)
  show ?case
    by (auto simp: assms Cons split: sum.splits
        intro!: events_in_bind events_in_attempt events_in_emit events_in_raise)
qed

lemma events_in_install_packages_loop:
  assumes "\<And>sp st fs r. P (Called (Install sp st fs) r)"
    and "\<And>sp r. P (Called (ReportIcaseHint sp) r)" and "\<And>f a. P (LogInfo f a)"
  shows "events_in P (install_packages_loop b cf forms specs errs)"
proof (induction specs arbitrary: errs)
  case Nil
  show ?case by (simp add: events_in_return)
next
  case (Cons p ps)
  show ?case
    by (auto simp: assms Cons split: sum.splits
        intro!: events_in_bind events_in_attempt events_in_invoke events_in_emit events_in_raise)
qed

lemma localinstall_no_forms:
  "command opt = [''localinstall''] \<Longrightarrow> get_nevra_forms_from_command opt = []"
  by (simp add: get_nevra_forms_from_command_def nevra_forms_def dom_def)

lemma run_steps:
  "run b cf opt =
     m_bind (security_filter_step b opt)
       (\<lambda>_. m_bind (localinstall_check cf opt)
       (\<lambda>_. m_bind (module_step b opt)
       (\<lambda>skipped. m_bind (file_step b cf opt (get_nevra_forms_from_command opt))
       (\<lambda>err_pkgs. m_bind (group_step b cf opt (get_nevra_forms_from_command opt) skipped)
       (\<lambda>_. m_bind (package_step b cf opt (get_nevra_forms_from_command opt))
       (\<lambda>errs. finalize cf err_pkgs errs))))))"
  by (simp add: run_def Let_def security_filter_step_def localinstall_check_def module_step_def
      file_step_def group_step_def package_step_def finalize_def)

lemma m_bindE:
  assumes "m_bind m f s = (r, s', t)"
  obtains (fails) e where "m s = (Inl e, s', t)" and "r = Inl e"
    | (continues) x s1 t1 t2 where "m s = (Inr x, s1, t1)" and "f x s1 = (r, s', t2)"
        and "t = t1 @ t2"
  using assms by (auto simp: m_bind_def split: prod.splits sum.splits)

lemma log_each_eq: "log_each mk xs s = (Inr (), s, map mk xs)"
  by (induction xs arbitrary: s) (simp_all add: m_return_def m_bind_def emit_def)

lemma invoke_eq:
  "invoke c shown f s =
     (case f s of
        (Inl e, s1) \<Rightarrow> (Inl (Raised e), s1, [Called c (Raises e)])
      | (Inr x, s1) \<Rightarrow> (Inr x, s1, [Called c (shown x)]))"
  by (simp add: invoke_def attempt_def m_bind_def m_raise_def m_return_def split: prod.splits sum.splits)

lemma events_in_rest_no_filter:
  "events_in (\<lambda>ev. phase_of ev \<noteq> FilterPhase)
     (m_bind (localinstall_check cf opt)
       (\<lambda>_. m_bind (module_step b opt)
       (\<lambda>skipped. m_bind (file_step b cf opt forms)
       (\<lambda>err_pkgs. m_bind (group_step b cf opt forms skipped)
       (\<lambda>_. m_bind (package_step b cf opt forms)
       (\<lambda>errs. finalize cf err_pkgs errs))))))"
  unfolding localinstall_check_def module_step_def file_step_def group_step_def package_step_def
    finalize_def install_files_def install_groups_def install_packages_def
    log_not_valid_rpm_file_paths_def inform_not_a_valid_combination_def
  by (auto split: sum.splits
      intro!: events_in_bind events_in_invoke events_in_attempt events_in_log_each events_in_raise
        events_in_return events_in_install_files_loop events_in_install_packages_loop)

lemma raised_calls_append [simp]: "raised_calls (t1 @ t2) = raised_calls t1 @ raised_calls t2"
  by (simp add: raised_calls_def)

lemma raised_calls_Nil [simp]: "raised_calls [] = []"
  by (simp add: raised_calls_def)

lemma raised_calls_Cons [simp]: "raised_calls (ev # t) = raised_call ev @ raised_calls t"
  by (simp add: raised_calls_def)

lemma blamed_append_left: "blamed G E P f t1 \<Longrightarrow> blamed G E P f (t1 @ t2)"
  by (cases f) auto

lemma blamed_append_right: "blamed G E P f t2 \<Longrightarrow> blamed G E P f (t1 @ t2)"
  by (cases f) auto

lemma fails_only_return: "fails_only G E P (m_return x)"
  by (simp add: fails_only_def m_return_def)

lemma fails_only_Error: "E \<Longrightarrow> fails_only G E P (m_raise (Error msg))"
  by (auto simp: fails_only_def m_raise_def)

lemma fails_only_PNAE: "P \<Longrightarrow> fails_only G E P (m_raise (PackagesNotAvailableError msg ps pk))"
  by (auto simp: fails_only_def m_raise_def)

lemma fails_only_emit: "fails_only G E P (emit ev)"
  by (simp add: fails_only_def emit_def)

lemma fails_only_log_each: "fails_only G E P (log_each mk xs)"
  by (simp add: fails_only_def log_each_eq)

lemma fails_only_bind:
  assumes "fails_only G E P m" and "\<And>x. fails_only G E P (f x)"
  shows "fails_only G E P (m_bind m f)"
  unfolding fails_only_def
proof (intro allI impI)
  fix s e s' t
  assume "m_bind m f s = (Inl e, s', t)"
  then show "blamed G E P e t"
  proof (cases rule: m_bindE)
    case (fails e')
    with assms(1) show ?thesis by (auto simp: fails_only_def)
  next
    case (continues x s1 t1 t2)
    with assms(2) [of x] show ?thesis
      by (auto simp: fails_only_def intro: blamed_append_right)
  qed
qed

lemma fails_only_invoke: "(\<And>e. G c e) \<Longrightarrow> fails_only G E P (invoke c shown f)"
  by (auto simp: fails_only_def invoke_eq split: prod.splits sum.splits)

lemma attempt_eq:
  "attempt c shown f s =
     (Inr (fst (f s)), snd (f s),
      [Called c (case fst (f s) of Inl e \<Rightarrow> Raises e | Inr x \<Rightarrow> shown x)])"
  by (simp add: attempt_def split: prod.splits sum.splits)

lemma fails_only_try:
  assumes "\<And>x. fails_only G E P (h (Inr x))"
    and "\<And>e. fails_only G E P (h (Inl e)) \<or> (h (Inl e) = m_raise (Raised e) \<and> G c e)"
  shows "fails_only G E P (m_bind (attempt c shown f) h)"
  unfolding fails_only_def
proof (intro allI impI)
  fix s e s' t
  assume "m_bind (attempt c shown f) h s = (Inl e, s', t)"
  then show "blamed G E P e t"
  proof (cases rule: m_bindE)
    case (fails e')
    then show ?thesis by (simp add: attempt_eq)
  next
    case (continues x s1 t1 t2)
    note c = continues
    show ?thesis
    proof (cases x)
      case (Inr y)
      with c assms(1) [of y] show ?thesis
        by (auto simp: fails_only_def intro: blamed_append_right)
    next
      case (Inl e')
      from assms(2) [of e'] show ?thesis
      proof
        assume "fails_only G E P (h (Inl e'))"
        with c Inl show ?thesis
          by (auto simp: fails_only_def intro: blamed_append_right)
      next
        assume "h (Inl e') = m_raise (Raised e') \<and> G c e'"
        with c Inl show ?thesis
          by (auto simp: attempt_eq m_raise_def)
      qed
    qed
  qed
qed

lemma fails_only_install_files_loop:
  assumes "\<And>p st e. \<not> is_MarkingError e \<Longrightarrow> G (PackageInstall p st) e"
  shows "fails_only G E P (install_files_loop b cf pkgs errs)"
proof (induction pkgs arbitrary: errs)
  case Nil
  show ?case by (simp add: fails_only_return)
next
  case (Cons p ps)
  show ?case
    unfolding install_files_loop.simps
    by (rule fails_only_try)
      (auto simp: assms Cons intro!: fails_only_bind fails_only_emit)
qed

lemma fails_only_install_packages_loop:
  assumes "\<And>sp st fs e. \<not> is_MarkingError e \<Longrightarrow> G (Install sp st fs) e"
    and "\<And>sp e. G (ReportIcaseHint sp) e"
  shows "fails_only G E P (install_packages_loop b cf forms specs errs)"
proof (induction specs arbitrary: errs)
  case Nil
  show ?case by (simp add: fails_only_return)
next
  case (Cons p ps)
  show ?case
    unfolding install_packages_loop.simps
    by (rule fails_only_try)
      (auto simp: assms Cons intro!: fails_only_bind fails_only_emit fails_only_invoke)
qed

lemma fails_only_install_groups:
  assumes "\<And>a e. G (ReadComps a) e"
    and "\<And>gs ts st e. \<not> is_Error e \<or> strict cf \<Longrightarrow> G (EnvGroupInstall gs ts st) e"
  shows "fails_only G E P (install_groups b cf opt grps)"
  unfolding install_groups_def
  by (intro fails_only_bind fails_only_invoke fails_only_try)
    (auto simp: assms intro!: fails_only_return)

lemma fails_only_run:
  assumes "\<And>e. G PopulateUpdateSecurityFilter e"
    and "\<And>gs y e. G (InstallModule gs y) e"
    and "\<And>fs st e. G (AddRemoteRpms fs st) e"
    and "\<And>p st e. \<not> is_MarkingError e \<Longrightarrow> G (PackageInstall p st) e"
    and "\<And>a e. G (ReadComps a) e"
    and "\<And>gs ts st e. \<not> is_Error e \<or> strict cf \<Longrightarrow> G (EnvGroupInstall gs ts st) e"
    and "\<And>sp st fs e. \<not> is_MarkingError e \<Longrightarrow> G (Install sp st fs) e"
    and "\<And>sp e. G (ReportIcaseHint sp) e"
    and "strict cf \<Longrightarrow> E" and "strict cf \<Longrightarrow> P"
  shows "fails_only G E P (run b cf opt)"
  unfolding run_steps security_filter_step_def localinstall_check_def module_step_def
    file_step_def group_step_def package_step_def finalize_def install_files_def
    install_packages_def log_not_valid_rpm_file_paths_def inform_not_a_valid_combination_def
  by (intro fails_only_bind fails_only_invoke)
    (auto simp: assms intro!: fails_only_bind fails_only_invoke fails_only_return
      fails_only_log_each fails_only_Error fails_only_PNAE fails_only_install_files_loop
      fails_only_install_packages_loop fails_only_install_groups)

lemma install_attempts_simps [simp]:
  "install_attempts [] = []"
  "install_attempts (ev # t) = install_attempt ev @ install_attempts t"
  "install_attempts (t1 @ t2) = install_attempts t1 @ install_attempts t2"
  by (simp_all add: install_attempts_def)

lemma file_attempts_simps [simp]:
  "file_attempts [] = []"
  "file_attempts (ev # t) = file_attempt ev @ file_attempts t"
  "file_attempts (t1 @ t2) = file_attempts t1 @ file_attempts t2"
  by (simp_all add: file_attempts_def)

lemma intake_calls_simps [simp]:
  "intake_calls [] = []"
  "intake_calls (ev # t) = intake_call ev @ intake_calls t"
  "intake_calls (t1 @ t2) = intake_calls t1 @ intake_calls t2"
  by (simp_all add: intake_calls_def)

lemma unmatched_specs_simps [simp]:
  "unmatched_specs [] = []"
  "unmatched_specs (t1 @ t2) = unmatched_specs t1 @ unmatched_specs t2"
  by (simp_all add: unmatched_specs_def)

lemma queued_specs_simps [simp]:
  "queued_specs [] = []"
  "queued_specs (t1 @ t2) = queued_specs t1 @ queued_specs t2"
  by (simp_all add: queued_specs_def)

lemma unmatched_packages_simps [simp]:
  "unmatched_packages [] = []"
  "unmatched_packages (t1 @ t2) = unmatched_packages t1 @ unmatched_packages t2"
  by (simp_all add: unmatched_packages_def)

lemma install_attempt_phase: "phase_of ev \<noteq> PackagePhase \<Longrightarrow> install_attempt ev = []"
  by (cases ev rule: install_attempt.cases) simp_all

lemma file_attempt_phase: "phase_of ev \<noteq> FilePhase \<Longrightarrow> file_attempt ev = []"
  by (cases ev rule: file_attempt.cases) simp_all

lemma intake_call_phase: "phase_of ev \<noteq> FilePhase \<Longrightarrow> intake_call ev = []"
  by (cases ev rule: intake_call.cases) simp_all

lemma install_attempts_phase:
  "\<forall>ev \<in> set t. phase_of ev \<noteq> PackagePhase \<Longrightarrow> install_attempts t = []"
  by (induction t) (simp_all add: install_attempt_phase)

lemma file_attempts_phase:
  "\<forall>ev \<in> set t. phase_of ev \<noteq> FilePhase \<Longrightarrow> file_attempts t = []"
  by (induction t) (simp_all add: file_attempt_phase)

lemma intake_calls_phase:
  "\<forall>ev \<in> set t. phase_of ev \<noteq> FilePhase \<Longrightarrow> intake_calls t = []"
  by (induction t) (simp_all add: intake_call_phase)

lemma events_inD: "events_in P m \<Longrightarrow> m s = (r, s1, t) \<Longrightarrow> \<forall>ev \<in> set t. P ev"
  by (auto simp: events_in_def dest!: spec [where x = s])

lemma events_in_mono: "events_in P m \<Longrightarrow> (\<And>ev. P ev \<Longrightarrow> Q ev) \<Longrightarrow> events_in Q m"
  by (auto simp: events_in_def)

lemma events_in_security_filter_step:
  "events_in (\<lambda>ev. phase_of ev = FilterPhase) (security_filter_step b opt)"
  unfolding security_filter_step_def by (rule events_in_invoke) simp

lemma events_in_localinstall_check:
  "events_in (\<lambda>ev. phase_of ev = Logging) (localinstall_check cf opt)"
  unfolding localinstall_check_def log_not_valid_rpm_file_paths_def
  by (auto intro!: events_in_bind events_in_log_each events_in_raise events_in_return)

lemma events_in_module_step:
  "events_in (\<lambda>ev. phase_of ev = ModulePhase) (module_step b opt)"
  unfolding module_step_def
  by (auto intro!: events_in_invoke events_in_return)

lemma events_in_file_step:
  "events_in (\<lambda>ev. phase_of ev = FilePhase \<or> phase_of ev = Logging) (file_step b cf opt forms)"
  unfolding file_step_def install_files_def inform_not_a_valid_combination_def
  by (auto intro!: events_in_bind events_in_invoke events_in_log_each events_in_raise
      events_in_return events_in_install_files_loop)

lemma events_in_group_step:
  "events_in (\<lambda>ev. phase_of ev = GroupPhase \<or> phase_of ev = Logging)
     (group_step b cf opt forms skipped)"
  unfolding group_step_def install_groups_def inform_not_a_valid_combination_def
  by (auto split: sum.splits intro!: events_in_bind events_in_invoke events_in_attempt
      events_in_log_each events_in_raise events_in_return)

lemma events_in_package_step:
  "events_in (\<lambda>ev. phase_of ev = PackagePhase \<or> phase_of ev = Logging)
     (package_step b cf opt forms)"
  unfolding package_step_def install_packages_def
  by (auto intro!: events_in_return events_in_install_packages_loop)

lemma finalize_trace: "finalize cf err_pkgs errs s = (r, s1, t) \<Longrightarrow> t = [] \<and> s1 = s"
  by (auto simp: finalize_def m_raise_def m_return_def split: if_splits)

lemma run_chain:
  assumes "run b cf opt s = (r, s', t)"
  obtains
    (exit1) e where "security_filter_step b opt s = (Inl e, s', t)" and "r = Inl e"
  | (exit2) e s1 t1 t2 where "security_filter_step b opt s = (Inr (), s1, t1)"
      and "localinstall_check cf opt s1 = (Inl e, s', t2)" and "r = Inl e" and "t = t1 @ t2"
  | (exit3) e s1 t1 s2 t2 t3 where "security_filter_step b opt s = (Inr (), s1, t1)"
      and "localinstall_check cf opt s1 = (Inr (), s2, t2)"
      and "module_step b opt s2 = (Inl e, s', t3)" and "r = Inl e" and "t = t1 @ t2 @ t3"
  | (exit4) e s1 t1 s2 t2 skipped s3 t3 t4 where "security_filter_step b opt s = (Inr (), s1, t1)"
      and "localinstall_check cf opt s1 = (Inr (), s2, t2)"
      and "module_step b opt s2 = (Inr skipped, s3, t3)"
      and "file_step b cf opt (get_nevra_forms_from_command opt) s3 = (Inl e, s', t4)"
      and "r = Inl e" and "t = t1 @ t2 @ t3 @ t4"
  | (exit5) e s1 t1 s2 t2 skipped s3 t3 err_pkgs s4 t4 t5 where
      "security_filter_step b opt s = (Inr (), s1, t1)"
      and "localinstall_check cf opt s1 = (Inr (), s2, t2)"
      and "module_step b opt s2 = (Inr skipped, s3, t3)"
      and "file_step b cf opt (get_nevra_forms_from_command opt) s3 = (Inr err_pkgs, s4, t4)"
      and "group_step b cf opt (get_nevra_forms_from_command opt) skipped s4 = (Inl e, s', t5)"
      and "r = Inl e" and "t = t1 @ t2 @ t3 @ t4 @ t5"
  | (exit6) e s1 t1 s2 t2 skipped s3 t3 err_pkgs s4 t4 s5 t5 t6 where
      "security_filter_step b opt s = (Inr (), s1, t1)"
      and "localinstall_check cf opt s1 = (Inr (), s2, t2)"
      and "module_step b opt s2 = (Inr skipped, s3, t3)"
      and "file_step b cf opt (get_nevra_forms_from_command opt) s3 = (Inr err_pkgs, s4, t4)"
      and "group_step b cf opt (get_nevra_forms_from_command opt) skipped s4 = (Inr (), s5, t5)"
      and "package_step b cf opt (get_nevra_forms_from_command opt) s5 = (Inl e, s', t6)"
      and "r = Inl e" and "t = t1 @ t2 @ t3 @ t4 @ t5 @ t6"
  | (complete) s1 t1 s2 t2 skipped s3 t3 err_pkgs s4 t4 s5 t5 errs t6 where
      "security_filter_step b opt s = (Inr (), s1, t1)"
      and "localinstall_check cf opt s1 = (Inr (), s2, t2)"
      and "module_step b opt s2 = (Inr skipped, s3, t3)"
      and "file_step b cf opt (get_nevra_forms_from_command opt) s3 = (Inr err_pkgs, s4, t4)"
      and "group_step b cf opt (get_nevra_forms_from_command opt) skipped s4 = (Inr (), s5, t5)"
      and "package_step b cf opt (get_nevra_forms_from_command opt) s5 = (Inr errs, s', t6)"
      and "finalize cf err_pkgs errs s' = (r, s', [])" and "t = t1 @ t2 @ t3 @ t4 @ t5 @ t6"
proof -
  from assms [unfolded run_steps] show thesis
  proof (cases rule: m_bindE)
    case (fails e)
    then show thesis by (rule exit1)
  next
    case c1: (continues x1 s1 t1 u1)
    from c1(2) show thesis
    proof (cases rule: m_bindE)
      case (fails e)
      with c1 show thesis by (auto intro: exit2)
    next
      case c2: (continues x2 s2 t2 u2)
      from c2(2) show thesis
      proof (cases rule: m_bindE)
        case (fails e)
        with c1 c2 show thesis by (auto intro: exit3)
      next
        case c3: (continues skipped s3 t3 u3)
        from c3(2) show thesis
        proof (cases rule: m_bindE)
          case (fails e)
          with c1 c2 c3 show thesis by (auto intro: exit4)
        next
          case c4: (continues err_pkgs s4 t4 u4)
          from c4(2) show thesis
          proof (cases rule: m_bindE)
            case (fails e)
            with c1 c2 c3 c4 show thesis by (auto intro: exit5)
          next
            case c5: (continues x5 s5 t5 u5)
            from c5(2) show thesis
            proof (cases rule: m_bindE)
              case (fails e)
              with c1 c2 c3 c4 c5 show thesis by (auto intro: exit6)
            next
              case c6: (continues errs s6 t6 u6)
              from c6(2) have "u6 = []" and "s' = s6" by (auto dest: finalize_trace)
              with c1 c2 c3 c4 c5 c6 show thesis by (auto intro: complete)
            qed
          qed
        qed
      qed
    qed
  qed
qed

lemma localinstall_check_eq:
  "localinstall_check cf opt s =
     (if command opt = [''localinstall''] \<and> (grp_specs opt \<noteq> [] \<or> pkg_specs opt \<noteq> [])
      then (if strict cf then Inl (Error ''Nothing to do.'') else Inr (), s,
            map (LogInfo ''Not a valid rpm file path: %s'')
              (pkg_specs opt @ map (\<lambda>g. ''@'' @ g) (grp_specs opt)))
      else (Inr (), s, []))"
  by (simp add: localinstall_check_def log_not_valid_rpm_file_paths_def m_bind_def log_each_eq
      m_raise_def m_return_def)

lemma security_filter_step_eq:
  "security_filter_step b opt s =
     (case populate_update_security_filter b opt s of
        (Inl e, s1) \<Rightarrow> (Inl (Raised e), s1, [Called PopulateUpdateSecurityFilter (Raises e)])
      | (Inr x, s1) \<Rightarrow> (Inr x, s1, [Called PopulateUpdateSecurityFilter Returns]))"
  by (simp add: security_filter_step_def invoke_eq)

lemma module_step_fails:
  "module_step b opt s = (Inl f, s1, t) \<Longrightarrow>
     \<exists>e. f = Raised e \<and> t = [Called (InstallModule (grp_specs opt) (assumeyes opt)) (Raises e)]"
  by (auto simp: module_step_def invoke_eq m_return_def split: if_splits prod.splits sum.splits)

lemma file_step_conflict:
  "filenames opt \<noteq> [] \<Longrightarrow> forms \<noteq> [] \<Longrightarrow>
   file_step b cf opt forms s =
     (if strict cf then Inl (Error ''Nothing to do.'') else Inr [], s,
      map (LogWarning ''Not a valid form: %s'') (filenames opt))"
  by (simp add: file_step_def inform_not_a_valid_combination_def m_bind_def log_each_eq
      m_raise_def m_return_def)

lemma forms_not_localinstall:
  "get_nevra_forms_from_command opt \<noteq> [] \<Longrightarrow> command opt \<noteq> [''localinstall'']"
  using localinstall_no_forms by blast

subsection \<open>What the phases return\<close>

lemma unmatched_specs_phase:
  "\<forall>ev \<in> set t. phase_of ev \<noteq> PackagePhase \<Longrightarrow> unmatched_specs t = []"
  by (simp add: unmatched_specs_def install_attempts_phase)

lemma queued_specs_phase:
  "\<forall>ev \<in> set t. phase_of ev \<noteq> PackagePhase \<Longrightarrow> queued_specs t = []"
  by (simp add: queued_specs_def install_attempts_phase)

lemma unmatched_packages_phase:
  "\<forall>ev \<in> set t. phase_of ev \<noteq> FilePhase \<Longrightarrow> unmatched_packages t = []"
  by (simp add: unmatched_packages_def file_attempts_phase)

lemma install_packages_loop_returns:
  "install_packages_loop b cf forms specs errs0 s = (Inr errs, s', t) \<Longrightarrow>
     errs = errs0 @ unmatched_specs t \<and> map fst (install_attempts t) = specs
     \<and> (\<forall>a \<in> set (install_attempts t). snd a = Returns \<or> not_found (snd a))"
proof (induction specs arbitrary: errs0 s t)
  case Nil
  then show ?case by (simp add: m_return_def)
next
  case (Cons sp specs)
  from Cons.prems [unfolded install_packages_loop.simps] show ?case
  proof (cases rule: m_bindE)
    case (continues x s1 t1 t2)
    from continues(1) have t1: "t1 = [Called (Install sp (strict cf) forms)
        (case x of Inl e \<Rightarrow> Raises e | Inr y \<Rightarrow> Returns)]"
      by (auto simp: attempt_eq)
    show ?thesis
    proof (cases x)
      case (Inr y)
      with continues(2) have "install_packages_loop b cf forms specs errs0 s1 = (Inr errs, s', t2)"
        by simp
      from Cons.IH [OF this] continues(3) t1 Inr show ?thesis
        by (simp add: unmatched_specs_def)
    next
      case (Inl e)
      show ?thesis
      proof (cases "is_MarkingError e")
        case False
        with continues(2) Inl show ?thesis by (simp add: m_raise_def)
      next
        case True
        with continues(2) Inl
        have "m_bind (emit (LogInfo ''No package %s available.'' sp))
                (\<lambda>_. m_bind (invoke (ReportIcaseHint sp) (\<lambda>_. Returns) (report_icase_hint b sp))
                (\<lambda>_. install_packages_loop b cf forms specs (errs0 @ [sp]))) s1 = (Inr errs, s', t2)"
          by simp
        then show ?thesis
        proof (cases rule: m_bindE)
          case c2: (continues x2 s2 u1 u2)
          from c2(1) have u1: "u1 = [LogInfo ''No package %s available.'' sp]"
            by (simp add: emit_def)
          from c2(2) show ?thesis
          proof (cases rule: m_bindE)
            case c3: (continues x3 s3 v1 v2)
            from c3(1) have v1: "\<exists>r. v1 = [Called (ReportIcaseHint sp) r]"
              by (auto simp: invoke_eq split: prod.splits sum.splits)
            from Cons.IH [OF c3(2)] continues(3) c2(3) c3(3) t1 u1 v1 Inl True show ?thesis
              by (auto simp: unmatched_specs_def)
          qed simp
        qed simp
      qed
    qed
  qed simp
qed

lemma install_files_loop_returns:
  "install_files_loop b cf pkgs errs0 s = (Inr errs, s', t) \<Longrightarrow>
     errs = errs0 @ unmatched_packages t"
proof (induction pkgs arbitrary: errs0 s t)
  case Nil
  then show ?case by (simp add: m_return_def)
next
  case (Cons p pkgs)
  from Cons.prems [unfolded install_files_loop.simps] show ?case
  proof (cases rule: m_bindE)
    case (continues x s1 t1 t2)
    from continues(1) have t1: "t1 = [Called (PackageInstall p (strict cf))
        (case x of Inl e \<Rightarrow> Raises e | Inr y \<Rightarrow> Returns)]"
      by (auto simp: attempt_eq)
    show ?thesis
    proof (cases x)
      case (Inr y)
      with continues(2) have "install_files_loop b cf pkgs errs0 s1 = (Inr errs, s', t2)"
        by simp
      from Cons.IH [OF this] continues(3) t1 Inr show ?thesis
        by (simp add: unmatched_packages_def)
    next
      case (Inl e)
      show ?thesis
      proof (cases "is_MarkingError e")
        case False
        with continues(2) Inl show ?thesis by (simp add: m_raise_def)
      next
        case True
        with continues(2) Inl
        have "m_bind (emit (LogInfo ''No match for argument: %s'' (location p)))
                (\<lambda>_. install_files_loop b cf pkgs (errs0 @ [p])) s1 = (Inr errs, s', t2)"
          by simp
        then show ?thesis
        proof (cases rule: m_bindE)
          case c2: (continues x2 s2 u1 u2)
          from c2(1) have u1: "u1 = [LogInfo ''No match for argument: %s'' (location p)]"
            by (simp add: emit_def)
          from Cons.IH [OF c2(2)] continues(3) c2(3) t1 u1 Inl True show ?thesis
            by (auto simp: unmatched_packages_def)
        qed simp
      qed
    qed
  qed simp
qed

lemma file_step_returns:
  assumes "file_step b cf opt forms s = (Inr err_pkgs, s', t)"
  shows "err_pkgs = unmatched_packages t"
proof (cases "filenames opt \<noteq> [] \<and> forms \<noteq> []")
  case True
  with assms show ?thesis
    by (auto simp: file_step_conflict unmatched_packages_phase split: if_splits)
next
  case False
  with assms have "install_files b cf opt s = (Inr err_pkgs, s', t)"
    by (auto simp: file_step_def)
  then show ?thesis
    unfolding install_files_def
  proof (cases rule: m_bindE)
    case (continues x s1 t1 t2)
    from continues(1) have "\<exists>r. t1 = [Called (AddRemoteRpms (filenames opt) (strict cf)) r]"
      by (auto simp: invoke_eq split: prod.splits sum.splits)
    with install_files_loop_returns [OF continues(2)] continues(3) show ?thesis
      by (auto simp: unmatched_packages_def)
  qed simp
qed

lemma package_step_returns:
  assumes "package_step b cf opt forms s = (Inr errs, s', t)"
  shows "errs = unmatched_specs t"
    and "command opt \<noteq> [''localinstall''] \<Longrightarrow> map fst (install_attempts t) = pkg_specs opt"
    and "\<forall>a \<in> set (install_attempts t). snd a = Returns \<or> not_found (snd a)"
    and "command opt = [''localinstall''] \<Longrightarrow> t = []"
  using assms install_packages_loop_returns [of b cf forms "pkg_specs opt" "[]" s errs s' t]
  by (auto simp: package_step_def install_packages_def m_return_def split: if_splits)

lemma no_pnae_steps:
  "fails_only (\<lambda>c e. True) True False (security_filter_step b opt)"
  "fails_only (\<lambda>c e. True) True False (localinstall_check cf opt)"
  "fails_only (\<lambda>c e. True) True False (module_step b opt)"
  "fails_only (\<lambda>c e. True) True False (file_step b cf opt forms)"
  "fails_only (\<lambda>c e. True) True False (group_step b cf opt forms skipped)"
  "fails_only (\<lambda>c e. True) True False (package_step b cf opt forms)"
  unfolding security_filter_step_def localinstall_check_def module_step_def file_step_def
    group_step_def package_step_def install_files_def install_packages_def
    log_not_valid_rpm_file_paths_def inform_not_a_valid_combination_def
  by (auto intro!: fails_only_bind fails_only_invoke fails_only_return
      fails_only_log_each fails_only_Error fails_only_install_files_loop
      fails_only_install_packages_loop fails_only_install_groups)

lemma fails_only_no_pnae:
  "fails_only (\<lambda>c e. True) True False m \<Longrightarrow> m s = (Inl f, s1, t) \<Longrightarrow>
     f \<noteq> PackagesNotAvailableError msg ps pk"
  unfolding fails_only_def by (metis blamed.simps(3))

text \<open>A run that reaches its last statement.\<close>

lemma run_summary:
  assumes run: "run b cf opt s = (r, s', t)"
    and fin: "r = Inr () \<or> (\<exists>msg ps pk. r = Inl (PackagesNotAvailableError msg ps pk))"
  shows "r = (if (unmatched_specs t \<noteq> [] \<or> unmatched_packages t \<noteq> []) \<and> strict cf
              then Inl (PackagesNotAvailableError ''Unable to find a match''
                          (join '' '' (unmatched_specs t)) (unmatched_packages t))
              else Inr ())"
    and "command opt \<noteq> [''localinstall''] \<Longrightarrow> map fst (install_attempts t) = pkg_specs opt"
    and "\<forall>a \<in> set (install_attempts t). snd a = Returns \<or> not_found (snd a)"
    and "command opt = [''localinstall''] \<Longrightarrow> install_attempts t = []"
proof -
  have "r = (if (unmatched_specs t \<noteq> [] \<or> unmatched_packages t \<noteq> []) \<and> strict cf
              then Inl (PackagesNotAvailableError ''Unable to find a match''
                          (join '' '' (unmatched_specs t)) (unmatched_packages t))
              else Inr ())
      \<and> (command opt \<noteq> [''localinstall''] \<longrightarrow> map fst (install_attempts t) = pkg_specs opt)
      \<and> (\<forall>a \<in> set (install_attempts t). snd a = Returns \<or> not_found (snd a))
      \<and> (command opt = [''localinstall''] \<longrightarrow> install_attempts t = [])"
    using run
  proof (cases rule: run_chain)
    case (exit1 e)
    with fin fails_only_no_pnae [OF no_pnae_steps(1) exit1(1)] show ?thesis by auto
  next
    case (exit2 e s1 t1 t2)
    with fin fails_only_no_pnae [OF no_pnae_steps(2) exit2(2)] show ?thesis by auto
  next
    case (exit3 e s1 t1 s2 t2 t3)
    with fin fails_only_no_pnae [OF no_pnae_steps(3) exit3(3)] show ?thesis by auto
  next
    case (exit4 e s1 t1 s2 t2 skipped s3 t3 t4)
    with fin fails_only_no_pnae [OF no_pnae_steps(4) exit4(4)] show ?thesis by auto
  next
    case (exit5 e s1 t1 s2 t2 skipped s3 t3 err_pkgs s4 t4 t5)
    with fin fails_only_no_pnae [OF no_pnae_steps(5) exit5(5)] show ?thesis by auto
  next
    case (exit6 e s1 t1 s2 t2 skipped s3 t3 err_pkgs s4 t4 s5 t5 t6)
    with fin fails_only_no_pnae [OF no_pnae_steps(6) exit6(6)] show ?thesis by auto
  next
    case (complete s1 t1 s2 t2 skipped s3 t3 err_pkgs s4 t4 s5 t5 errs t6)
    note p1 = events_inD [OF events_in_security_filter_step complete(1)]
      and p2 = events_inD [OF events_in_localinstall_check complete(2)]
      and p3 = events_inD [OF events_in_module_step complete(3)]
      and p4 = events_inD [OF events_in_file_step complete(4)]
      and p5 = events_inD [OF events_in_group_step complete(5)]
      and p6 = events_inD [OF events_in_package_step complete(6)]
    have "install_attempts t1 = []" "install_attempts t2 = []" "install_attempts t3 = []"
      "install_attempts t4 = []" "install_attempts t5 = []"
      using p1 p2 p3 p4 p5 by (auto intro!: install_attempts_phase)
    then have ia: "install_attempts t = install_attempts t6"
      using complete(8) by simp
    have us: "unmatched_specs t = unmatched_specs t6"
      using ia by (simp add: unmatched_specs_def)
    have "unmatched_packages t1 = []" "unmatched_packages t2 = []" "unmatched_packages t3 = []"
      "unmatched_packages t5 = []" "unmatched_packages t6 = []"
      using p1 p2 p3 p5 p6 by (auto intro!: unmatched_packages_phase)
    then have up: "unmatched_packages t = unmatched_packages t4"
      using complete(8) by simp
    note ps = package_step_returns [OF complete(6)]
    have "r = (if (errs \<noteq> [] \<or> err_pkgs \<noteq> []) \<and> strict cf
               then Inl (PackagesNotAvailableError ''Unable to find a match''
                           (join '' '' errs) err_pkgs)
               else Inr ())"
      using complete(7) by (auto simp: finalize_def m_raise_def m_return_def split: if_splits)
    with ps file_step_returns [OF complete(4)] ia us up show ?thesis by auto
  qed
  then show "r = (if (unmatched_specs t \<noteq> [] \<or> unmatched_packages t \<noteq> []) \<and> strict cf
              then Inl (PackagesNotAvailableError ''Unable to find a match''
                          (join '' '' (unmatched_specs t)) (unmatched_packages t))
              else Inr ())"
    and "command opt \<noteq> [''localinstall''] \<Longrightarrow> map fst (install_attempts t) = pkg_specs opt"
    and "\<forall>a \<in> set (install_attempts t). snd a = Returns \<or> not_found (snd a)"
    and "command opt = [''localinstall''] \<Longrightarrow> install_attempts t = []"
    by auto
qed

lemma install_groups_eq:
  "install_groups b cf opt grps s =
     (case read_comps b True s of
        (Inl e, s1) \<Rightarrow> (Inl (Raised e), s1, [Called (ReadComps True) (Raises e)])
      | (Inr u, s1) \<Rightarrow>
          (case env_group_install b (grp_specs opt) (group_package_types cf) (strict cf) s1 of
             (Inl e, s2) \<Rightarrow>
               (if is_Error e \<and> \<not> strict cf then Inr () else Inl (Raised e), s2,
                [Called (ReadComps True) Returns,
                 Called (EnvGroupInstall (grp_specs opt) (group_package_types cf) (strict cf))
                   (Raises e)])
           | (Inr u', s2) \<Rightarrow>
               (Inr (), s2,
                [Called (ReadComps True) Returns,
                 Called (EnvGroupInstall (grp_specs opt) (group_package_types cf) (strict cf))
                   Returns])))"
  by (simp add: install_groups_def invoke_eq attempt_eq m_bind_def m_raise_def m_return_def
      split: prod.splits sum.splits)

lemma group_step_raises:
  assumes "group_step b cf opt forms skipped s = (r, s', t)"
  shows "Called (ReadComps a) (Raises e) \<in> set t \<Longrightarrow> r = Inl (Raised e)"
    and "Called (EnvGroupInstall gs ts st) (Raises e) \<in> set t \<Longrightarrow>
           r = (if is_Error e \<and> \<not> strict cf then Inr () else Inl (Raised e))"
  using assms
  by (auto simp: group_step_def install_groups_eq inform_not_a_valid_combination_def
      log_each_eq m_bind_def m_raise_def m_return_def
      split: if_splits prod.splits sum.splits)

lemma package_step_fails:
  "fails_only (\<lambda>c e. phase_of_call c = PackagePhase) False False (package_step b cf opt forms)"
  unfolding package_step_def install_packages_def
  by (auto intro!: fails_only_return fails_only_install_packages_loop)

lemma run_group_view:
  assumes run: "run b cf opt s = (r, s', t)" and ev: "ev \<in> set t" "phase_of ev = GroupPhase"
  obtains r5 s4 s5 t5 skipped where
    "group_step b cf opt (get_nevra_forms_from_command opt) skipped s4 = (r5, s5, t5)"
    and "ev \<in> set t5"
    and "\<And>f. r5 = Inl f \<Longrightarrow> r = Inl f"
    and "r5 = Inr () \<Longrightarrow> r = Inr ()
           \<or> (\<exists>c e'. phase_of_call c = PackagePhase \<and> (c, e') \<in> set (raised_calls t)
                  \<and> r = Inl (Raised e'))
           \<or> (strict cf \<and> (\<exists>msg ps pk. r = Inl (PackagesNotAvailableError msg ps pk)))"
  using run
proof (cases rule: run_chain)
  case (exit1 e)
  with ev events_inD [OF events_in_security_filter_step exit1(1)] show ?thesis by auto
next
  case (exit2 e s1 t1 t2)
  with ev events_inD [OF events_in_security_filter_step exit2(1)]
    events_inD [OF events_in_localinstall_check exit2(2)] show ?thesis by auto
next
  case (exit3 e s1 t1 s2 t2 t3)
  with ev events_inD [OF events_in_security_filter_step exit3(1)]
    events_inD [OF events_in_localinstall_check exit3(2)]
    events_inD [OF events_in_module_step exit3(3)] show ?thesis by auto
next
  case (exit4 e s1 t1 s2 t2 skipped s3 t3 t4)
  with ev events_inD [OF events_in_security_filter_step exit4(1)]
    events_inD [OF events_in_localinstall_check exit4(2)]
    events_inD [OF events_in_module_step exit4(3)]
    events_inD [OF events_in_file_step exit4(4)] show ?thesis by auto
next
  case (exit5 e s1 t1 s2 t2 skipped s3 t3 err_pkgs s4 t4 t5)
  from ev exit5(7) events_inD [OF events_in_security_filter_step exit5(1)]
    events_inD [OF events_in_localinstall_check exit5(2)]
    events_inD [OF events_in_module_step exit5(3)]
    events_inD [OF events_in_file_step exit5(4)]
  have "ev \<in> set t5" by auto
  with exit5(5,6) show ?thesis by (auto intro: that)
next
  case (exit6 e s1 t1 s2 t2 skipped s3 t3 err_pkgs s4 t4 s5 t5 t6)
  from ev exit6(8) events_inD [OF events_in_security_filter_step exit6(1)]
    events_inD [OF events_in_localinstall_check exit6(2)]
    events_inD [OF events_in_module_step exit6(3)]
    events_inD [OF events_in_file_step exit6(4)]
    events_inD [OF events_in_package_step exit6(6)]
  have in5: "ev \<in> set t5" by auto
  from package_step_fails [of b cf opt "get_nevra_forms_from_command opt"] exit6(6)
  have "blamed (\<lambda>c e. phase_of_call c = PackagePhase) False False e t6"
    by (auto simp: fails_only_def)
  then have "\<exists>c e'. phase_of_call c = PackagePhase \<and> (c, e') \<in> set (raised_calls t6)
      \<and> e = Raised e'"
    by (cases e) auto
  with exit6(7,8) have "\<exists>c e'. phase_of_call c = PackagePhase
      \<and> (c, e') \<in> set (raised_calls t) \<and> r = Inl (Raised e')"
    by auto
  with exit6(5) in5 show ?thesis by (auto intro: that)
next
  case (complete s1 t1 s2 t2 skipped s3 t3 err_pkgs s4 t4 s5 t5 errs t6)
  from ev complete(8) events_inD [OF events_in_security_filter_step complete(1)]
    events_inD [OF events_in_localinstall_check complete(2)]
    events_inD [OF events_in_module_step complete(3)]
    events_inD [OF events_in_file_step complete(4)]
    events_inD [OF events_in_package_step complete(6)]
  have in5: "ev \<in> set t5" by auto
  from complete(7) have "r = Inr ()
      \<or> (strict cf \<and> (\<exists>msg ps pk. r = Inl (PackagesNotAvailableError msg ps pk)))"
    by (auto simp: finalize_def m_raise_def m_return_def split: if_splits)
  with complete(5) in5 show ?thesis by (auto intro: that)
qed

lemma file_step_intake:
  assumes "\<not> (filenames opt \<noteq> [] \<and> forms \<noteq> [])"
    and "file_step b cf opt forms s = (r, s', t)"
  shows "intake_calls t = [(filenames opt, strict cf)]"
proof -
  from assms have "install_files b cf opt s = (r, s', t)"
    by (auto simp: file_step_def)
  then show ?thesis
    unfolding install_files_def
  proof (cases rule: m_bindE)
    case (fails e)
    then show ?thesis
      by (auto simp: invoke_eq split: prod.splits sum.splits)
  next
    case (continues x s1 t1 t2)
    have "events_in (\<lambda>ev. intake_call ev = []) (install_files_loop b cf x [])"
      by (rule events_in_install_files_loop) simp_all
    from events_inD [OF this continues(2)] have "intake_calls t2 = []"
      by (induction t2) simp_all
    with continues(1,3) show ?thesis
      by (auto simp: invoke_eq split: prod.splits sum.splits)
  qed
qed

lemma filter_by_flags:
  "map fst (filter (\<lambda>a. P (snd a)) xs) =
     map fst (filter snd (zip (map fst xs) (map (\<lambda>a. P (snd a)) xs)))"
  by (induction xs) simp_all

lemma filter_no_flags: "filter snd (zip xs (replicate (length xs) False)) = []"
  by (induction xs) simp_all

subsection \<open>Evaluating a run on an example\<close>

lemmas step_defs =
  security_filter_step_def localinstall_check_def module_step_def file_step_def
  group_step_def package_step_def finalize_def install_files_def install_groups_def
  install_packages_def log_not_valid_rpm_file_paths_def inform_not_a_valid_combination_def

lemmas run_eval = m_bind_def m_return_def m_raise_def emit_def invoke_def attempt_def

lemmas example_defs =
  quiet_engine_def picky_engine_def broken_group_engine_def strict_conf_def lenient_conf_def
  request_def get_nevra_forms_from_command_def nevra_forms_def dom_def

lemmas reading_defs = unmatched_specs_def queued_specs_def unmatched_packages_def


section \<open>Properties of the command\<close>

text \<open>
  C1: when module resolution has returned skipped group specs, no form was detected and
  the command is not \<^verbatim>\<open>localinstall\<close>, the classic group installation should resolve
  the skipped specs. \<^verbatim>\<open>run\<close> passes them to \<^verbatim>\<open>_install_groups\<close>, whose body hands
  \<^verbatim>\<open>self.opts.grp_specs\<close> to the engine instead: for the request \<^verbatim>\<open>install @a @b\<close> with
  module resolution skipping only \<open>b\<close>, \<^verbatim>\<open>env_group_install\<close> receives both \<open>a\<close> and \<open>b\<close>.
\<close>

theorem group_install_receives_all_group_specs:
  "trace (run (quiet_engine [''b''] [] []) strict_conf
            (request ''install'' [] [''a'', ''b''] []) ()) =
     [Called PopulateUpdateSecurityFilter Returns,
      Called (InstallModule [''a'', ''b''] False) (ReturnsSpecs [''b'']),
      Called (AddRemoteRpms [] True) (ReturnsPackages []),
      Called (ReadComps True) Returns,
      Called (EnvGroupInstall [''a'', ''b''] [''mandatory''] True) Returns]"
  by (simp add: run_steps step_defs quiet_engine_def strict_conf_def request_def
      get_nevra_forms_from_command_def nevra_forms_def dom_def run_eval)

theorem group_install_receives_all_group_specs_witness:
  "Called (EnvGroupInstall [''a'', ''b''] [''mandatory''] True) Returns
     \<in> set (trace (run (quiet_engine [''b''] [] []) strict_conf
                     (request ''install'' [] [''a'', ''b''] []) ()))
   \<and> Called (InstallModule [''a'', ''b''] False) (ReturnsSpecs [''b''])
     \<in> set (trace (run (quiet_engine [''b''] [] []) strict_conf
                     (request ''install'' [] [''a'', ''b''] []) ()))"
  using group_install_receives_all_group_specs by simp

text \<open>
  C2: a request with file paths and a detected form, under strict mode, ends in the
  error "Nothing to do." and makes no file, group or package installation call. The run
  calls the security filter and, when there are group specs, module resolution before
  it reaches the check; it ends in the usage error when neither of them raised, and in
  an error in any case.
\<close>

theorem file_form_conflict_strict:
  assumes "filenames opt \<noteq> []" and "get_nevra_forms_from_command opt \<noteq> []" and "strict cf"
  shows "(\<forall>ev \<in> set (trace (run b cf opt s)).
            phase_of ev = FilterPhase \<or> phase_of ev = ModulePhase \<or> phase_of ev = Logging)
       \<and> (\<exists>f. result (run b cf opt s) = Inl f)
       \<and> (raised_calls (trace (run b cf opt s)) = [] \<longrightarrow>
            result (run b cf opt s) = Inl (Error ''Nothing to do.''))"
proof -
  obtain r s' t where run: "run b cf opt s = (r, s', t)" by (cases "run b cf opt s") auto
  have "(\<forall>ev \<in> set t. phase_of ev = FilterPhase \<or> phase_of ev = ModulePhase \<or> phase_of ev = Logging)
       \<and> (\<exists>f. r = Inl f) \<and> (raised_calls t = [] \<longrightarrow> r = Inl (Error ''Nothing to do.''))"
    using run
  proof (cases rule: run_chain)
    case (exit1 e)
    then show ?thesis
      by (auto simp: security_filter_step_eq split: prod.splits sum.splits)
  next
    case (exit2 e s1 t1 t2)
    then show ?thesis
      by (auto simp: security_filter_step_eq localinstall_check_eq
          split: prod.splits sum.splits if_splits)
  next
    case (exit3 e s1 t1 s2 t2 t3)
    from exit3(3) obtain e' where "e = Raised e'"
      and "t3 = [Called (InstallModule (grp_specs opt) (assumeyes opt)) (Raises e')]"
      by (auto dest: module_step_fails)
    with exit3 show ?thesis
      by (auto simp: security_filter_step_eq localinstall_check_eq
          split: prod.splits sum.splits if_splits)
  next
    case (exit4 e s1 t1 s2 t2 skipped s3 t3 t4)
    from exit4(3) have "\<forall>ev \<in> set t3. phase_of ev = ModulePhase"
      by (rule events_inD [OF events_in_module_step])
    with exit4 assms show ?thesis
      by (auto simp: security_filter_step_eq localinstall_check_eq file_step_conflict
          split: prod.splits sum.splits if_splits)
  next
    case (exit5 e s1 t1 s2 t2 skipped s3 t3 err_pkgs s4 t4 t5)
    with assms show ?thesis by (simp add: file_step_conflict)
  next
    case (exit6 e s1 t1 s2 t2 skipped s3 t3 err_pkgs s4 t4 s5 t5 t6)
    with assms show ?thesis by (simp add: file_step_conflict)
  next
    case (complete s1 t1 s2 t2 skipped s3 t3 err_pkgs s4 t4 s5 t5 errs t6)
    with assms show ?thesis by (simp add: file_step_conflict)
  qed
  with run show ?thesis by simp
qed

theorem file_form_conflict_strict_witness:
  "filenames (request ''install-n'' [''vim''] [''g''] [''a.rpm'']) \<noteq> []
   \<and> get_nevra_forms_from_command (request ''install-n'' [''vim''] [''g''] [''a.rpm'']) = [FORM_NAME]
   \<and> strict strict_conf
   \<and> run (quiet_engine [] [] [''vim'']) strict_conf
        (request ''install-n'' [''vim''] [''g''] [''a.rpm'']) () =
      (Inl (Error ''Nothing to do.''), (),
       [Called PopulateUpdateSecurityFilter Returns,
        Called (InstallModule [''g''] False) (ReturnsSpecs []),
        LogWarning ''Not a valid form: %s'' ''a.rpm''])"
  using file_form_conflict_strict [of "request ''install-n'' [''vim''] [''g''] [''a.rpm'']"
      strict_conf "quiet_engine [] [] [''vim'']" "()"]
  by (simp add: run_steps step_defs quiet_engine_def strict_conf_def request_def
      get_nevra_forms_from_command_def nevra_forms_def dom_def run_eval)

text \<open>
  C3 (amended): a run that gets to the last statement of \<^verbatim>\<open>run\<close>, that is, one that
  returns or raises the aggregate error, raises the aggregate error "Unable to find a
  match" exactly when strict mode is on and some per-spec or per-file install ended in
  "not found". The \<^verbatim>\<open>pkg_spec\<close> field joins the specs of the per-spec installs that were
  not found and the \<^verbatim>\<open>packages\<close> field lists the packages of the per-file installs that
  were not found, each in the order of the calls, with one entry for every such call and
  none left out.
\<close>

theorem unmatched_targets_error:
  assumes "result (run b cf opt s) = Inr ()
           \<or> (\<exists>msg ps pk. result (run b cf opt s) = Inl (PackagesNotAvailableError msg ps pk))"
  shows "result (run b cf opt s) =
           (if (unmatched_specs (trace (run b cf opt s)) \<noteq> []
                \<or> unmatched_packages (trace (run b cf opt s)) \<noteq> []) \<and> strict cf
            then Inl (PackagesNotAvailableError ''Unable to find a match''
                        (join '' '' (unmatched_specs (trace (run b cf opt s))))
                        (unmatched_packages (trace (run b cf opt s))))
            else Inr ())"
proof -
  obtain r s' t where run: "run b cf opt s = (r, s', t)" by (cases "run b cf opt s") auto
  with assms have "r = Inr () \<or> (\<exists>msg ps pk. r = Inl (PackagesNotAvailableError msg ps pk))"
    by simp
  from run_summary(1) [OF run this] run show ?thesis by simp
qed

theorem unmatched_targets_error_witness:
  "run picky_engine strict_conf
     (request ''install'' [''vim'', ''nope''] [] [''a.rpm'', ''b.rpm'']) () =
     (Inl (PackagesNotAvailableError ''Unable to find a match'' ''nope'' [Package 1 ''b.rpm'']), (),
      [Called PopulateUpdateSecurityFilter Returns,
       Called (AddRemoteRpms [''a.rpm'', ''b.rpm''] True)
         (ReturnsPackages [Package 0 ''a.rpm'', Package 1 ''b.rpm'']),
       Called (PackageInstall (Package 0 ''a.rpm'') True) Returns,
       Called (PackageInstall (Package 1 ''b.rpm'') True) (Raises (MarkingError ''b.rpm'')),
       LogInfo ''No match for argument: %s'' ''b.rpm'',
       Called (Install ''vim'' True []) Returns,
       Called (Install ''nope'' True []) (Raises (MarkingError ''nope'')),
       LogInfo ''No package %s available.'' ''nope'',
       Called (ReportIcaseHint ''nope'') Returns])
   \<and> unmatched_specs (trace (run picky_engine strict_conf
        (request ''install'' [''vim'', ''nope''] [] [''a.rpm'', ''b.rpm'']) ())) = [''nope'']
   \<and> unmatched_packages (trace (run picky_engine strict_conf
        (request ''install'' [''vim'', ''nope''] [] [''a.rpm'', ''b.rpm'']) ())) = [Package 1 ''b.rpm'']"
  using unmatched_targets_error [of picky_engine strict_conf
      "request ''install'' [''vim'', ''nope''] [] [''a.rpm'', ''b.rpm'']" "()"]
  by (simp add: run_steps step_defs example_defs run_eval reading_defs)

text \<open>
  The payload is not free of duplicates: for \<^verbatim>\<open>install x x\<close> with \<open>x\<close> not available, both
  calls fail, \<open>errs\<close> is \<open>[x, x]\<close> and the field reads \<open>x x\<close>. Nothing in the file removes
  duplicates from the specs or from the unmatched lists.
\<close>

theorem unmatched_targets_error_counterexample:
  "result (run (quiet_engine [] [] []) strict_conf (request ''install'' [''x'', ''x''] [] []) ()) =
     Inl (PackagesNotAvailableError ''Unable to find a match'' ''x x'' [])
   \<and> unmatched_specs
       (trace (run (quiet_engine [] [] []) strict_conf (request ''install'' [''x'', ''x''] [] []) ())) =
     [''x'', ''x'']
   \<and> \<not> distinct [''x'', ''x'']"
  by (simp add: run_steps step_defs example_defs run_eval reading_defs)

text \<open>
  C4 (amended): an exception of \<^verbatim>\<open>read_comps\<close> ends the run with that exception, strict or
  not; so does an exception of \<^verbatim>\<open>env_group_install\<close> that is no
  \<^verbatim>\<open>dnf.exceptions.Error\<close>; a \<^verbatim>\<open>dnf.exceptions.Error\<close> of \<^verbatim>\<open>env_group_install\<close> ends the
  run when strict mode is on, and is dropped when it is off: the run then goes on to
  the package installation, and returns unless a call of that phase raises.
\<close>

theorem group_install_errors:
  "(\<forall>a e. Called (ReadComps a) (Raises e) \<in> set (trace (run b cf opt s)) \<longrightarrow>
      result (run b cf opt s) = Inl (Raised e))
   \<and> (\<forall>gs ts st e. Called (EnvGroupInstall gs ts st) (Raises e) \<in> set (trace (run b cf opt s))
        \<and> (strict cf \<or> \<not> is_Error e) \<longrightarrow>
      result (run b cf opt s) = Inl (Raised e))
   \<and> (\<forall>gs ts st e. Called (EnvGroupInstall gs ts st) (Raises e) \<in> set (trace (run b cf opt s))
        \<and> \<not> strict cf \<and> is_Error e \<longrightarrow>
      result (run b cf opt s) = Inr ()
      \<or> (\<exists>c e'. phase_of_call c = PackagePhase
             \<and> (c, e') \<in> set (raised_calls (trace (run b cf opt s)))
             \<and> result (run b cf opt s) = Inl (Raised e')))"
proof -
  obtain r s' t where run: "run b cf opt s = (r, s', t)" by (cases "run b cf opt s") auto
  have 1: "r = Inl (Raised e)" if "Called (ReadComps a) (Raises e) \<in> set t" for a e
    using run that
  proof (rule run_group_view)
    fix r5 s4 s5 t5 skipped
    assume g: "group_step b cf opt (get_nevra_forms_from_command opt) skipped s4 = (r5, s5, t5)"
      and "Called (ReadComps a) (Raises e) \<in> set t5" and f: "\<And>f. r5 = Inl f \<Longrightarrow> r = Inl f"
    with group_step_raises(1) [OF g] show ?thesis by auto
  qed simp
  have 2: "r = Inl (Raised e)"
    if "Called (EnvGroupInstall gs ts st) (Raises e) \<in> set t" and "strict cf \<or> \<not> is_Error e"
    for gs ts st e
    using run that(1)
  proof (rule run_group_view)
    fix r5 s4 s5 t5 skipped
    assume g: "group_step b cf opt (get_nevra_forms_from_command opt) skipped s4 = (r5, s5, t5)"
      and "Called (EnvGroupInstall gs ts st) (Raises e) \<in> set t5"
      and f: "\<And>f. r5 = Inl f \<Longrightarrow> r = Inl f"
    with group_step_raises(2) [OF g] that(2) show ?thesis by auto
  qed simp
  have 3: "r = Inr () \<or> (\<exists>c e'. phase_of_call c = PackagePhase
              \<and> (c, e') \<in> set (raised_calls t) \<and> r = Inl (Raised e'))"
    if "Called (EnvGroupInstall gs ts st) (Raises e) \<in> set t" and "\<not> strict cf" and "is_Error e"
    for gs ts st e
    using run that(1)
  proof (rule run_group_view)
    fix r5 s4 s5 t5 skipped
    assume g: "group_step b cf opt (get_nevra_forms_from_command opt) skipped s4 = (r5, s5, t5)"
      and "Called (EnvGroupInstall gs ts st) (Raises e) \<in> set t5"
      and "r5 = Inr () \<Longrightarrow> r = Inr ()
           \<or> (\<exists>c e'. phase_of_call c = PackagePhase \<and> (c, e') \<in> set (raised_calls t)
                  \<and> r = Inl (Raised e'))
           \<or> (strict cf \<and> (\<exists>msg ps pk. r = Inl (PackagesNotAvailableError msg ps pk)))"
    with group_step_raises(2) [OF g] that(2,3) show ?thesis by auto
  qed simp
  from 1 2 3 run show ?thesis by simp blast
qed

theorem group_install_errors_witness:
  "run (broken_group_engine (ForeignError ''boom'')) lenient_conf
     (request ''install'' [''vim''] [''g''] []) () =
     (Inl (Raised (ForeignError ''boom'')), (),
      [Called PopulateUpdateSecurityFilter Returns,
       Called (InstallModule [''g''] False) (ReturnsSpecs [''g'']),
       Called (AddRemoteRpms [] False) (ReturnsPackages []),
       Called (ReadComps True) Returns,
       Called (EnvGroupInstall [''g''] [''mandatory''] False) (Raises (ForeignError ''boom''))])
   \<and> run (broken_group_engine (DnfError ''hard'')) strict_conf
     (request ''install'' [''vim''] [''g''] []) () =
     (Inl (Raised (DnfError ''hard'')), (),
      [Called PopulateUpdateSecurityFilter Returns,
       Called (InstallModule [''g''] False) (ReturnsSpecs [''g'']),
       Called (AddRemoteRpms [] True) (ReturnsPackages []),
       Called (ReadComps True) Returns,
       Called (EnvGroupInstall [''g''] [''mandatory''] True) (Raises (DnfError ''hard''))])"
  using group_install_errors [of "broken_group_engine (ForeignError ''boom'')" lenient_conf
      "request ''install'' [''vim''] [''g''] []" "()"]
    group_install_errors [of "broken_group_engine (DnfError ''hard'')" strict_conf
      "request ''install'' [''vim''] [''g''] []" "()"]
  by (simp add: run_steps step_defs example_defs run_eval)

text \<open>
  With strict mode off, an engine error of the group installation that is no "not
  found" (a \<^verbatim>\<open>dnf.exceptions.Error\<close> other than a \<^verbatim>\<open>MarkingError\<close>) does not end the
  run: the handler \<^verbatim>\<open>except dnf.exceptions.Error\<close> re-raises under \<^verbatim>\<open>strict\<close> only, the
  package \<open>vim\<close> is installed afterwards and the run returns.
\<close>

theorem group_install_errors_counterexample:
  "run (broken_group_engine (DnfError ''hard'')) lenient_conf
     (request ''install'' [''vim''] [''g''] []) () =
     (Inr (), (),
      [Called PopulateUpdateSecurityFilter Returns,
       Called (InstallModule [''g''] False) (ReturnsSpecs [''g'']),
       Called (AddRemoteRpms [] False) (ReturnsPackages []),
       Called (ReadComps True) Returns,
       Called (EnvGroupInstall [''g''] [''mandatory''] False) (Raises (DnfError ''hard'')),
       Called (Install ''vim'' False []) Returns])
   \<and> \<not> is_MarkingError (DnfError ''hard'')"
  by (simp add: run_steps step_defs example_defs run_eval)

text \<open>
  C5 (amended): with strict mode off, a run in which every exception of the engine is
  one the command takes for a target not found (a \<^verbatim>\<open>MarkingError\<close> of a per-file or
  per-spec install, a \<^verbatim>\<open>dnf.exceptions.Error\<close> of the group installation) returns. If in
  addition the command is not \<^verbatim>\<open>localinstall\<close>, the per-spec install is called for every
  package spec of the request, in order, and the specs whose call returned together
  with those not found are all of them: of \<open>N\<close> specs with \<open>M\<close> not found, \<open>N - M\<close> are
  queued.
\<close>

theorem lenient_run_succeeds:
  assumes "\<not> strict cf"
    and "\<forall>ce \<in> set (raised_calls (trace (run b cf opt s))). not_found_signal (fst ce) (snd ce)"
  shows "result (run b cf opt s) = Inr ()
       \<and> (command opt \<noteq> [''localinstall''] \<longrightarrow>
            map fst (install_attempts (trace (run b cf opt s))) = pkg_specs opt
            \<and> length (queued_specs (trace (run b cf opt s)))
                + length (unmatched_specs (trace (run b cf opt s))) = length (pkg_specs opt))"
proof -
  obtain r s' t where run: "run b cf opt s = (r, s', t)" by (cases "run b cf opt s") auto
  with assms(2) have benign: "\<forall>ce \<in> set (raised_calls t). not_found_signal (fst ce) (snd ce)"
    by simp
  have "fails_only (\<lambda>c e. \<not> not_found_signal c e) False False (run b cf opt)"
    by (rule fails_only_run) (use assms(1) in auto)
  then have bl: "blamed (\<lambda>c e. \<not> not_found_signal c e) False False f t" if "r = Inl f" for f
    using run that by (auto simp: fails_only_def)
  have r: "r = Inr ()"
  proof (cases r)
    case (Inl f)
    from bl [OF Inl] benign show ?thesis
      by (cases f) force+
  qed simp
  then have fin: "r = Inr () \<or> (\<exists>msg ps pk. r = Inl (PackagesNotAvailableError msg ps pk))"
    by simp
  have "map fst (install_attempts t) = pkg_specs opt
      \<and> length (queued_specs t) + length (unmatched_specs t) = length (pkg_specs opt)"
    if cmd: "command opt \<noteq> [''localinstall'']"
  proof -
    from run_summary(2) [OF run fin cmd]
    have specs: "map fst (install_attempts t) = pkg_specs opt" .
    from run_summary(3) [OF run fin]
    have "filter (\<lambda>a. snd a = Returns) (install_attempts t) =
        filter (\<lambda>a. \<not> not_found (snd a)) (install_attempts t)"
      by (intro filter_cong) auto
    then have "length (queued_specs t) + length (unmatched_specs t) =
        length (install_attempts t)"
      by (simp add: queued_specs_def unmatched_specs_def add.commute sum_length_filter_compl)
    with specs show ?thesis by (metis length_map)
  qed
  with r run show ?thesis by simp
qed

theorem lenient_run_succeeds_witness:
  "\<not> strict lenient_conf
   \<and> raised_calls (trace (run (quiet_engine [] [] [''vim'']) lenient_conf
        (request ''install'' [''nope'', ''vim'', ''nada''] [] []) ())) =
       [(Install ''nope'' False [], MarkingError ''nope''),
        (Install ''nada'' False [], MarkingError ''nada'')]
   \<and> result (run (quiet_engine [] [] [''vim'']) lenient_conf
        (request ''install'' [''nope'', ''vim'', ''nada''] [] []) ()) = Inr ()
   \<and> map fst (install_attempts (trace (run (quiet_engine [] [] [''vim'']) lenient_conf
        (request ''install'' [''nope'', ''vim'', ''nada''] [] []) ()))) = [''nope'', ''vim'', ''nada'']
   \<and> queued_specs (trace (run (quiet_engine [] [] [''vim'']) lenient_conf
        (request ''install'' [''nope'', ''vim'', ''nada''] [] []) ())) = [''vim'']
   \<and> unmatched_specs (trace (run (quiet_engine [] [] [''vim'']) lenient_conf
        (request ''install'' [''nope'', ''vim'', ''nada''] [] []) ())) = [''nope'', ''nada'']"
  using lenient_run_succeeds [of lenient_conf "quiet_engine [] [] [''vim'']"
      "request ''install'' [''nope'', ''vim'', ''nada''] [] []" "()"]
  by (simp add: run_steps step_defs example_defs run_eval reading_defs)

text \<open>
  For \<^verbatim>\<open>localinstall\<close> the second half fails: \<^verbatim>\<open>run\<close> guards \<^verbatim>\<open>_install_packages\<close> with
  \<^verbatim>\<open>self.opts.command != ['localinstall']\<close>, so for \<^verbatim>\<open>localinstall vim\<close> with strict mode
  off the per-spec install is called for no spec, although the engine would find
  \<open>vim\<close>; the run logs the spec as no valid file path and returns.
\<close>

theorem lenient_run_succeeds_counterexample:
  "pkg_specs (request ''localinstall'' [''vim''] [] []) = [''vim'']
   \<and> fst (install (quiet_engine [] [] [''vim'']) ''vim'' False [] ()) = Inr ()
   \<and> run (quiet_engine [] [] [''vim'']) lenient_conf (request ''localinstall'' [''vim''] [] []) () =
     (Inr (), (),
      [Called PopulateUpdateSecurityFilter Returns,
       LogInfo ''Not a valid rpm file path: %s'' ''vim'',
       Called (AddRemoteRpms [] False) (ReturnsPackages [])])
   \<and> install_attempts (trace (run (quiet_engine [] [] [''vim'']) lenient_conf
        (request ''localinstall'' [''vim''] [] []) ())) = []"
  by (simp add: run_steps step_defs example_defs run_eval)

text \<open>
  C6: a \<^verbatim>\<open>localinstall\<close> request with a group spec, under strict mode, ends in the error
  "Nothing to do." before any file is installed: the run makes no call but the security
  filter, so neither the intake nor a per-file install precedes the error. It ends in
  the usage error when the filter did not raise, and in an error in any case.
\<close>

theorem localinstall_with_group_strict:
  assumes "command opt = [''localinstall'']" and "grp_specs opt \<noteq> []" and "strict cf"
  shows "(\<forall>ev \<in> set (trace (run b cf opt s)). phase_of ev = FilterPhase \<or> phase_of ev = Logging)
       \<and> (\<exists>f. result (run b cf opt s) = Inl f)
       \<and> (raised_calls (trace (run b cf opt s)) = [] \<longrightarrow>
            result (run b cf opt s) = Inl (Error ''Nothing to do.''))"
proof -
  obtain r s' t where run: "run b cf opt s = (r, s', t)" by (cases "run b cf opt s") auto
  have "(\<forall>ev \<in> set t. phase_of ev = FilterPhase \<or> phase_of ev = Logging)
       \<and> (\<exists>f. r = Inl f) \<and> (raised_calls t = [] \<longrightarrow> r = Inl (Error ''Nothing to do.''))"
    using run
  proof (cases rule: run_chain)
    case (exit1 e)
    then show ?thesis
      by (auto simp: security_filter_step_eq split: prod.splits sum.splits)
  next
    case (exit2 e s1 t1 t2)
    then show ?thesis
      by (auto simp: security_filter_step_eq localinstall_check_eq
          split: prod.splits sum.splits if_splits)
  qed (use assms in \<open>simp_all add: localinstall_check_eq\<close>)
  with run show ?thesis by simp
qed

theorem localinstall_with_group_strict_witness:
  "command (request ''localinstall'' [] [''g''] [''a.rpm'']) = [''localinstall'']
   \<and> grp_specs (request ''localinstall'' [] [''g''] [''a.rpm'']) \<noteq> []
   \<and> strict strict_conf
   \<and> run (quiet_engine [] [Package 0 ''a.rpm''] []) strict_conf
        (request ''localinstall'' [] [''g''] [''a.rpm'']) () =
      (Inl (Error ''Nothing to do.''), (),
       [Called PopulateUpdateSecurityFilter Returns,
        LogInfo ''Not a valid rpm file path: %s'' ''@g''])"
  using localinstall_with_group_strict [of "request ''localinstall'' [] [''g''] [''a.rpm'']"
      strict_conf "quiet_engine [] [Package 0 ''a.rpm''] []" "()"]
  by (simp add: run_steps step_defs quiet_engine_def strict_conf_def request_def
      get_nevra_forms_from_command_def nevra_forms_def dom_def run_eval)

text \<open>
  C7: on every run, whatever it ends in, the first event is the call of the security
  filter, made on the engine state the run started in, and no later event is a call of
  the filter. The only thing the command reads before it is the command word, for the
  form detection; every call and every log line that depends on a target list comes
  after.
\<close>

theorem security_filter_first_and_once:
  "\<exists>rest. trace (run b cf opt s) =
            Called PopulateUpdateSecurityFilter
              (case fst (populate_update_security_filter b opt s) of
                 Inl e \<Rightarrow> Raises e | Inr _ \<Rightarrow> Returns) # rest
          \<and> (\<forall>ev \<in> set rest. phase_of ev \<noteq> FilterPhase)"
proof -
  obtain r s' t where run: "run b cf opt s = (r, s', t)" by (cases "run b cf opt s") auto
  from run [unfolded run_steps]
  have "\<exists>rest. t = Called PopulateUpdateSecurityFilter
                      (case fst (populate_update_security_filter b opt s) of
                         Inl e \<Rightarrow> Raises e | Inr _ \<Rightarrow> Returns) # rest
             \<and> (\<forall>ev \<in> set rest. phase_of ev \<noteq> FilterPhase)"
  proof (cases rule: m_bindE)
    case (fails e)
    then show ?thesis
      by (auto simp: security_filter_step_eq split: prod.splits sum.splits)
  next
    case (continues x s1 t1 t2)
    from continues(2) events_in_rest_no_filter [of cf opt b "get_nevra_forms_from_command opt"]
    have "\<forall>ev \<in> set t2. phase_of ev \<noteq> FilterPhase"
      by (auto simp: events_in_def dest!: spec [where x = s1])
    with continues(1,3) show ?thesis
      by (auto simp: security_filter_step_eq split: prod.splits sum.splits)
  qed
  with run show ?thesis by simp
qed

theorem security_filter_first_and_once_witness:
  "map phase_of (trace (run (quiet_engine [] [] [''vim'']) strict_conf
                          (request ''install'' [''vim'', ''doesnotexist123''] [] []) ())) =
     [FilterPhase, FilePhase, PackagePhase, PackagePhase, Logging, PackagePhase]"
  using security_filter_first_and_once [of "quiet_engine [] [] [''vim'']" strict_conf
      "request ''install'' [''vim'', ''doesnotexist123''] [] []" "()"]
  by (simp add: run_steps step_defs quiet_engine_def strict_conf_def request_def
      get_nevra_forms_from_command_def nevra_forms_def dom_def run_eval)

text \<open>
  C8: a \<^verbatim>\<open>localinstall\<close> request, strict or not and whatever specs it carries, makes no
  call of module resolution, of classic group installation or of per-spec package
  installation: besides the security filter, every call of the run is the intake or a
  per-file install.
\<close>

theorem localinstall_calls:
  assumes "command opt = [''localinstall'']"
  shows "\<forall>ev \<in> set (trace (run b cf opt s)).
           phase_of ev = FilterPhase \<or> phase_of ev = FilePhase \<or> phase_of ev = Logging"
proof -
  have "events_in (\<lambda>ev. phase_of ev = FilterPhase \<or> phase_of ev = FilePhase \<or> phase_of ev = Logging)
          (run b cf opt)"
    unfolding run_def Let_def install_files_def log_not_valid_rpm_file_paths_def
      inform_not_a_valid_combination_def
    using assms
    by (auto simp: localinstall_no_forms
        intro!: events_in_bind events_in_invoke events_in_log_each events_in_raise
          events_in_return events_in_install_files_loop)
  then show ?thesis by (simp add: events_in_def)
qed

theorem localinstall_calls_witness:
  "command (request ''localinstall'' [''vim''] [''g''] [''a.rpm'']) = [''localinstall'']
   \<and> map phase_of (trace (run (quiet_engine [] [Package 0 ''a.rpm''] [''vim'']) lenient_conf
                             (request ''localinstall'' [''vim''] [''g''] [''a.rpm'']) ())) =
       [FilterPhase, Logging, Logging, FilePhase, FilePhase]"
  using localinstall_calls [of "request ''localinstall'' [''vim''] [''g''] [''a.rpm'']"
      "quiet_engine [] [Package 0 ''a.rpm''] [''vim'']" lenient_conf "()"]
  by (simp add: run_steps step_defs quiet_engine_def lenient_conf_def request_def
      get_nevra_forms_from_command_def nevra_forms_def dom_def run_eval)

text \<open>
  C9: when the run raises the aggregate error, its \<^verbatim>\<open>pkg_spec\<close> field is the specs of the
  per-spec installs that were not found, joined by single spaces; these specs are the
  package specs of the request at some of their positions, in the order of the request.
  The field does not tell one spec with a space from two specs.
\<close>

theorem pkg_spec_field:
  assumes "result (run b cf opt s) = Inl (PackagesNotAvailableError msg ps pk)"
  shows "ps = join '' '' (unmatched_specs (trace (run b cf opt s)))
       \<and> (\<exists>flags. length flags = length (pkg_specs opt)
             \<and> unmatched_specs (trace (run b cf opt s)) =
                 map fst (filter snd (zip (pkg_specs opt) flags)))
       \<and> join '' '' [u @ '' '' @ v] = join '' '' [u, v]"
proof -
  obtain r s' t where run: "run b cf opt s = (r, s', t)" by (cases "run b cf opt s") auto
  with assms have r: "r = Inl (PackagesNotAvailableError msg ps pk)" by simp
  then have fin: "r = Inr () \<or> (\<exists>msg ps pk. r = Inl (PackagesNotAvailableError msg ps pk))"
    by simp
  from run_summary(1) [OF run fin] r have ps: "ps = join '' '' (unmatched_specs t)"
    by (simp split: if_splits)
  have "\<exists>flags. length flags = length (pkg_specs opt)
          \<and> unmatched_specs t = map fst (filter snd (zip (pkg_specs opt) flags))"
  proof (cases "command opt = [''localinstall'']")
    case True
    from run_summary(4) [OF run fin True] have "unmatched_specs t = []"
      by (simp add: unmatched_specs_def)
    then show ?thesis
      by (intro exI [of _ "replicate (length (pkg_specs opt)) False"])
        (simp add: filter_no_flags)
  next
    case False
    from run_summary(2) [OF run fin False]
    have specs: "map fst (install_attempts t) = pkg_specs opt" .
    have "unmatched_specs t =
        map fst (filter snd (zip (map fst (install_attempts t))
                               (map (\<lambda>a. not_found (snd a)) (install_attempts t))))"
      unfolding unmatched_specs_def by (rule filter_by_flags)
    with specs show ?thesis
      by (intro exI [of _ "map (\<lambda>a. not_found (snd a)) (install_attempts t)"])
        (metis length_map)
  qed
  with ps run show ?thesis by simp
qed

theorem pkg_spec_field_witness:
  "result (run (quiet_engine [] [] [''vim'']) strict_conf
        (request ''install'' [''a b'', ''vim'', ''c''] [] []) ()) =
     Inl (PackagesNotAvailableError ''Unable to find a match'' ''a b c'' [])
   \<and> unmatched_specs (trace (run (quiet_engine [] [] [''vim'']) strict_conf
        (request ''install'' [''a b'', ''vim'', ''c''] [] []) ())) = [''a b'', ''c'']
   \<and> map fst (filter snd (zip [''a b'', ''vim'', ''c''] [True, False, True])) = [''a b'', ''c'']"
  using pkg_spec_field [of "quiet_engine [] [] [''vim'']" strict_conf
      "request ''install'' [''a b'', ''vim'', ''c''] [] []" "()"
      "''Unable to find a match''" "''a b c''" "[]"]
  by (simp add: run_steps step_defs example_defs run_eval reading_defs)

text \<open>
  C10: when the request does not combine file paths with a detected form and passes the
  \<^verbatim>\<open>localinstall\<close> usage check, and the calls before the file phase (the security
  filter, module resolution) did not raise, the run calls the intake
  \<^verbatim>\<open>add_remote_rpms\<close> exactly once, with the file paths of the request, empty or not,
  and the strictness flag.
\<close>

theorem intake_called_once:
  assumes "\<not> (filenames opt \<noteq> [] \<and> get_nevra_forms_from_command opt \<noteq> [])"
    and "\<not> (command opt = [''localinstall''] \<and> (grp_specs opt \<noteq> [] \<or> pkg_specs opt \<noteq> [])
            \<and> strict cf)"
    and "\<forall>ce \<in> set (raised_calls (trace (run b cf opt s))).
           phase_of_call (fst ce) \<noteq> FilterPhase \<and> phase_of_call (fst ce) \<noteq> ModulePhase"
  shows "intake_calls (trace (run b cf opt s)) = [(filenames opt, strict cf)]"
proof -
  obtain r s' t where run: "run b cf opt s = (r, s', t)" by (cases "run b cf opt s") auto
  with assms(3) have quiet: "\<forall>ce \<in> set (raised_calls t).
      phase_of_call (fst ce) \<noteq> FilterPhase \<and> phase_of_call (fst ce) \<noteq> ModulePhase"
    by simp
  have mid: "intake_calls (t1 @ t2 @ t3 @ t4 @ rest) = [(filenames opt, strict cf)]"
    if "security_filter_step b opt s = (Inr (), s1, t1)"
      and "localinstall_check cf opt s1 = (Inr (), s2, t2)"
      and "module_step b opt s2 = (Inr skipped, s3, t3)"
      and "file_step b cf opt (get_nevra_forms_from_command opt) s3 = (r4, s4, t4)"
      and "\<forall>ev \<in> set rest. phase_of ev \<noteq> FilePhase"
    for s1 t1 s2 t2 skipped s3 t3 r4 s4 t4 rest
  proof -
    have "intake_calls t1 = []" "intake_calls t2 = []" "intake_calls t3 = []"
      using events_inD [OF events_in_security_filter_step that(1)]
        events_inD [OF events_in_localinstall_check that(2)]
        events_inD [OF events_in_module_step that(3)]
      by (auto intro!: intake_calls_phase)
    with file_step_intake [OF assms(1) that(4)] intake_calls_phase [OF that(5)]
    show ?thesis by simp
  qed
  have "intake_calls t = [(filenames opt, strict cf)]"
    using run
  proof (cases rule: run_chain)
    case (exit1 e)
    with quiet show ?thesis
      by (auto simp: security_filter_step_eq split: prod.splits sum.splits)
  next
    case (exit2 e s1 t1 t2)
    with assms(2) show ?thesis
      by (auto simp: localinstall_check_eq split: if_splits)
  next
    case (exit3 e s1 t1 s2 t2 t3)
    from module_step_fails [OF exit3(3)] exit3(5) quiet show ?thesis by auto
  next
    case (exit4 e s1 t1 s2 t2 skipped s3 t3 t4)
    from mid [OF exit4(1-4), of "[]"] exit4(6) show ?thesis by simp
  next
    case (exit5 e s1 t1 s2 t2 skipped s3 t3 err_pkgs s4 t4 t5)
    from events_inD [OF events_in_group_step exit5(5)]
    have "\<forall>ev \<in> set t5. phase_of ev \<noteq> FilePhase" by auto
    from mid [OF exit5(1-4) this] exit5(7) show ?thesis by simp
  next
    case (exit6 e s1 t1 s2 t2 skipped s3 t3 err_pkgs s4 t4 s5 t5 t6)
    from events_inD [OF events_in_group_step exit6(5)]
      events_inD [OF events_in_package_step exit6(6)]
    have "\<forall>ev \<in> set (t5 @ t6). phase_of ev \<noteq> FilePhase" by auto
    from mid [OF exit6(1-4) this] exit6(8) show ?thesis by simp
  next
    case (complete s1 t1 s2 t2 skipped s3 t3 err_pkgs s4 t4 s5 t5 errs t6)
    from events_inD [OF events_in_group_step complete(5)]
      events_inD [OF events_in_package_step complete(6)]
    have "\<forall>ev \<in> set (t5 @ t6). phase_of ev \<noteq> FilePhase" by auto
    from mid [OF complete(1-4) this] complete(8) show ?thesis by simp
  qed
  with run show ?thesis by simp
qed

theorem intake_called_once_witness:
  "filenames (request ''install'' [''vim''] [] []) = []
   \<and> raised_calls (trace (run (quiet_engine [] [] [''vim'']) strict_conf
        (request ''install'' [''vim''] [] []) ())) = []
   \<and> intake_calls (trace (run (quiet_engine [] [] [''vim'']) strict_conf
        (request ''install'' [''vim''] [] []) ())) = [([], True)]"
  using intake_called_once [of "request ''install'' [''vim''] [] []" strict_conf
      "quiet_engine [] [] [''vim'']" "()"]
  by (simp add: run_steps step_defs example_defs run_eval)


end
